theory Spec2Isabelle
  imports Main "HOL-Library.Sublist" "HOL-Library.AList"
begin

section \<open>Python strings and values\<close>

text \<open>
  A Python \<open>str\<close> is modelled by \<^typ>\<open>string\<close>: the list of the code units of its UTF-8
  encoding, so an ASCII character is one \<^typ>\<open>char\<close>. Equality, truthiness (non-empty),
  concatenation, \<open>join\<close> and \<open>replace\<close> act on the encoding as they act on the code points.
  Only the recognition of white space has to look at more than one code unit.
\<close>

definition ws_seqs :: "string list" where
  \<comment> \<open>the code points \<open>c\<close> with \<open>c.isspace()\<close>, each as its UTF-8 encoding:
      U+0009..U+000D, U+001C..U+0020, U+0085, U+00A0, U+1680, U+2000..U+200A,
      U+2028, U+2029, U+202F, U+205F, U+3000\<close>
  "ws_seqs =
     [[CHR 0x09], [CHR 0x0A], [CHR 0x0B], [CHR 0x0C], [CHR 0x0D],
      [CHR 0x1C], [CHR 0x1D], [CHR 0x1E], [CHR 0x1F], [CHR 0x20],
      [CHR 0xC2, CHR 0x85], [CHR 0xC2, CHR 0xA0],
      [CHR 0xE1, CHR 0x9A, CHR 0x80],
      [CHR 0xE2, CHR 0x80, CHR 0x80], [CHR 0xE2, CHR 0x80, CHR 0x81],
      [CHR 0xE2, CHR 0x80, CHR 0x82], [CHR 0xE2, CHR 0x80, CHR 0x83],
      [CHR 0xE2, CHR 0x80, CHR 0x84], [CHR 0xE2, CHR 0x80, CHR 0x85],
      [CHR 0xE2, CHR 0x80, CHR 0x86], [CHR 0xE2, CHR 0x80, CHR 0x87],
      [CHR 0xE2, CHR 0x80, CHR 0x88], [CHR 0xE2, CHR 0x80, CHR 0x89],
      [CHR 0xE2, CHR 0x80, CHR 0x8A],
      [CHR 0xE2, CHR 0x80, CHR 0xA8], [CHR 0xE2, CHR 0x80, CHR 0xA9],
      [CHR 0xE2, CHR 0x80, CHR 0xAF], [CHR 0xE2, CHR 0x81, CHR 0x9F],
      [CHR 0xE3, CHR 0x80, CHR 0x80]]"

definition ws_at :: "string list \<Rightarrow> string \<Rightarrow> string option" where
  \<comment> \<open>the white-space character the string starts with, if any\<close>
  "ws_at ws s = find (\<lambda>w. w \<noteq> [] \<and> prefix w s) ws"

function drop_ws :: "string list \<Rightarrow> string \<Rightarrow> string" where
  "drop_ws ws s =
     (case ws_at ws s of
        None \<Rightarrow> s
      | Some w \<Rightarrow> drop_ws ws (drop (length w) s))"
  by pat_completeness auto
termination
  by (relation "measure (\<lambda>(ws, s). length s)")
     (auto simp: ws_at_def find_Some_iff prefix_def)

declare drop_ws.simps [simp del]

definition lstrip :: "string \<Rightarrow> string" where
  "lstrip s = drop_ws ws_seqs s"

definition rstrip :: "string \<Rightarrow> string" where
  "rstrip s = rev (drop_ws (map rev ws_seqs) (rev s))"

definition strip :: "string \<Rightarrow> string" where
  \<comment> \<open>\<open>s.strip()\<close>\<close>
  "strip s = rstrip (lstrip s)"

definition lower_char :: "char \<Rightarrow> char" where
  "lower_char c =
     (if (65::nat) \<le> of_char c \<and> of_char c \<le> (90::nat)
      then char_of (of_char c + (32::nat)) else c)"

definition lower :: "string \<Rightarrow> string" where
  \<comment> \<open>\<open>s.lower()\<close> on the ASCII letters. The source compares every lowered string with an
      ASCII word (\<open>survey\<close>, \<open>question\<close>, the four question types, \<open>.xlsx\<close>), and no
      letter outside ASCII lowers to one of the ASCII letters of these words, so the
      comparisons come out as in Python.\<close>
  "lower s = map lower_char s"

fun join :: "string \<Rightarrow> string list \<Rightarrow> string" where
  \<comment> \<open>\<open>sep.join(xs)\<close>\<close>
  "join sep [] = []"
| "join sep [x] = x"
| "join sep (x # y # ys) = x @ sep @ join sep (y # ys)"

fun replace :: "string \<Rightarrow> string \<Rightarrow> string \<Rightarrow> string" where
  \<comment> \<open>\<open>s.replace(old, new)\<close> for a non-empty \<open>old\<close> (the only call has the literal
      \<open>{answers}\<close>): every occurrence found scanning from the left, none overlapping\<close>
  "replace old new [] = []"
| "replace old new (c # cs) =
     (if old \<noteq> [] \<and> prefix old (c # cs)
      then new @ replace old new (drop (length old) (c # cs))
      else c # replace old new cs)"

fun str_nat :: "nat \<Rightarrow> string" where
  "str_nat n =
     (if n < 10 then [char_of (48 + n)]
      else str_nat (n div 10) @ [char_of (48 + n mod 10)])"

declare str_nat.simps [simp del]

definition str_int :: "int \<Rightarrow> string" where
  \<comment> \<open>\<open>str(i)\<close> of an \<open>int\<close>\<close>
  "str_int i = (if i < 0 then CHR ''-'' # str_nat (nat (- i)) else str_nat (nat i))"

definition or_str :: "string \<Rightarrow> string \<Rightarrow> string" where
  \<comment> \<open>\<open>a or b\<close> on strings\<close>
  "or_str a b = (if a = [] then b else a)"

definition or_None :: "string \<Rightarrow> string option" where
  \<comment> \<open>\<open>a or None\<close>\<close>
  "or_None a = (if a = [] then None else Some a)"

text \<open>
  The values the code receives from pandas cells and from the JSON body. A \<open>float\<close> is
  represented by its \<open>str()\<close>, which identifies it (\<open>nan\<close> is NaN); \<open>bool\<close> is a
  subclass of \<open>int\<close> in Python, which \<open>as_int\<close> follows.
\<close>

datatype pyval =
    PNone
  | PBool bool
  | PInt int
  | PFloat string
  | PStr string
  | PList "pyval list"
  | PDict "(string \<times> pyval) list"

text \<open>
  What the code calls outside the repository and the model cannot compute: \<open>float(s)\<close>
  (\<open>None\<close> when it raises ValueError, else the \<open>str()\<close> of the float), \<open>str(v)\<close> of a
  list or dict, and whether \<open>pd.isna(v)\<close> of a list or dict is truthy without raising.
\<close>

record py_ext =
  py_float :: "string \<Rightarrow> string option"
  str_container :: "pyval \<Rightarrow> string"
  isna_container :: "pyval \<Rightarrow> bool"

fun as_int :: "pyval \<Rightarrow> int option" where
  \<comment> \<open>\<open>isinstance(v, int)\<close>, with the value\<close>
  "as_int (PInt i) = Some i"
| "as_int (PBool b) = Some (if b then 1 else 0)"
| "as_int _ = None"

fun py_str :: "py_ext \<Rightarrow> pyval \<Rightarrow> string" where
  \<comment> \<open>\<open>str(v)\<close>\<close>
  "py_str ext PNone = ''None''"
| "py_str ext (PBool b) = (if b then ''True'' else ''False'')"
| "py_str ext (PInt i) = str_int i"
| "py_str ext (PFloat r) = r"
| "py_str ext (PStr s) = s"
| "py_str ext v = str_container ext v"

fun pd_isna :: "py_ext \<Rightarrow> pyval \<Rightarrow> bool" where
  \<comment> \<open>\<open>pd.isna(v)\<close> as a condition; a raised exception counts as false, as the
      \<open>try\<close> of \<open>_safe_str\<close> has it\<close>
  "pd_isna ext PNone = True"
| "pd_isna ext (PFloat r) = (r = ''nan'')"
| "pd_isna ext (PList xs) = isna_container ext (PList xs)"
| "pd_isna ext (PDict kvs) = isna_container ext (PDict kvs)"
| "pd_isna ext _ = False"

fun is_float :: "pyval \<Rightarrow> bool" where
  "is_float (PFloat r) = True"
| "is_float _ = False"

definition safe_str :: "py_ext \<Rightarrow> pyval \<Rightarrow> string" where
  "safe_str ext v =
     (if v = PNone then []
      else if is_float v \<and> pd_isna ext v then []
      else if pd_isna ext v then []
      else strip (py_str ext v))"

definition norm :: "string \<Rightarrow> string" where
  "norm s = lower (strip (or_str s []))"

section \<open>Data model\<close>

record opt =
  idx :: int
  opt_text :: string
  next_qid :: "string option"

record question =
  qid :: string
  qtype :: string
  title :: string
  q_text :: string
  long_text :: string
  hints :: string
  options :: "opt list"
  next_id :: "string option"

text \<open>
  A Python \<open>dict\<close> keeps its keys in insertion order, and assigning to a key that is
  present replaces the value where the key stands: an association list with
  \<^const>\<open>AList.update\<close>, looked up with \<^const>\<open>map_of\<close>.
\<close>

type_synonym qdict = "(string \<times> question) list"

record survey =
  key :: string
  file_name :: string
  s_title :: string
  description :: string
  start_qid :: string
  final_title :: string
  final_text :: string
  questions :: qdict

section \<open>Definition parser\<close>

text \<open>
  The sheet \<open>pd.read_excel\<close> returns: its column names as read, and its rows, each row
  from the stripped column names to the cells. \<open>r.get(col)\<close> is \<open>None\<close> for a column the
  sheet does not have.
\<close>

type_synonym row = "(string \<times> pyval) list"

record dataframe =
  columns :: "string list"
  rows :: "row list"

definition row_get :: "row \<Rightarrow> string \<Rightarrow> pyval" where
  "row_get r col = (case map_of r col of None \<Rightarrow> PNone | Some v \<Rightarrow> v)"

datatype ValueError =
    Missing_columns "string list"
  | No_survey_row
  | Invalid_type string string
  | No_answers string
  | No_questions

definition required :: "string list" where
  \<comment> \<open>the required columns, in the order \<open>sorted\<close> gives them\<close>
  "required =
     [''FinalText'', ''FinalTitle'', ''Hints'', ''Id'', ''LongText'', ''NextId'',
      ''QuestionText'', ''QuestionTitle'', ''RowType'', ''StartQuestionId'',
      ''SurveyDescription'', ''SurveyTitle'', ''Type'']"

definition basename :: "string \<Rightarrow> string" where
  \<comment> \<open>\<open>os.path.basename\<close> (POSIX)\<close>
  "basename p = rev (takeWhile (\<lambda>c. c \<noteq> CHR ''/'') (rev p))"

definition splitext_root :: "string \<Rightarrow> string" where
  \<comment> \<open>\<open>os.path.splitext(b)[0]\<close> of a name without separator: the extension starts at the
      last dot, unless only dots come before it\<close>
  "splitext_root b =
     (if CHR ''.'' \<in> set b
      then (let stem = rev (tl (dropWhile (\<lambda>c. c \<noteq> CHR ''.'') (rev b)))
            in if list_all (\<lambda>c. c = CHR ''.'') stem then b else stem)
      else b)"

function sub_ws :: "bool \<Rightarrow> string \<Rightarrow> string" where
  \<comment> \<open>\<open>re.sub(r"\<bsol>s+", "_", s)\<close>; the flag says that the scan is inside a run of white space\<close>
  "sub_ws in_run s =
     (case ws_at ws_seqs s of
        Some w \<Rightarrow> (if in_run then [] else ''_'') @ sub_ws True (drop (length w) s)
      | None \<Rightarrow> (case s of [] \<Rightarrow> [] | c # cs \<Rightarrow> c # sub_ws False cs))"
  by pat_completeness auto
termination
  by (relation "measure (\<lambda>(b, s). length s)")
     (auto simp: ws_at_def find_Some_iff prefix_def)

declare sub_ws.simps [simp del]

definition slug_char :: "char \<Rightarrow> bool" where
  \<comment> \<open>the class \<open>[A-Za-z0-9_-]\<close>\<close>
  "slug_char c =
     (let n = (of_char c :: nat)
      in (65 \<le> n \<and> n \<le> 90) \<or> (97 \<le> n \<and> n \<le> 122) \<or> (48 \<le> n \<and> n \<le> 57)
         \<or> c = CHR ''_'' \<or> c = CHR ''-'')"

definition slugify :: "string \<Rightarrow> string" where
  "slugify name =
     (let base = splitext_root (basename name);
          base = sub_ws False base;
          base = filter slug_char base
      in or_str base ''survey'')"

definition row_type :: "py_ext \<Rightarrow> row \<Rightarrow> string" where
  \<comment> \<open>\<open>df[COL_ROWTYPE].astype(str).str.lower().str.strip()\<close> at one row\<close>
  "row_type ext r = strip (lower (py_str ext (row_get r ''RowType'')))"

definition gather_options :: "py_ext \<Rightarrow> row \<Rightarrow> opt list" where
  \<comment> \<open>the loop over \<open>range(1, 11)\<close>\<close>
  "gather_options ext r =
     List.map_filter
       (\<lambda>i. let a = safe_str ext (row_get r (''Answer'' @ str_int i));
                n = safe_str ext (row_get r (''NextIfAnswer'' @ str_int i))
            in if a \<noteq> [] then Some \<lparr>idx = i, opt_text = a, next_qid = or_None n\<rparr>
               else None)
       [1..10]"

definition row_qid :: "py_ext \<Rightarrow> row \<Rightarrow> string" where
  \<comment> \<open>line 128: \<open>qid = _safe_str(r.get(COL_QID))\<close>\<close>
  "row_qid ext r = safe_str ext (row_get r ''Id'')"

definition make_question :: "py_ext \<Rightarrow> row \<Rightarrow> question" where
  \<comment> \<open>the \<open>Question\<close> the loop body builds from a row that passed its checks\<close>
  "make_question ext r =
     \<lparr>qid = row_qid ext r,
      qtype = norm (safe_str ext (row_get r ''Type'')),
      title = safe_str ext (row_get r ''QuestionTitle''),
      q_text = safe_str ext (row_get r ''QuestionText''),
      long_text = safe_str ext (row_get r ''LongText''),
      hints = safe_str ext (row_get r ''Hints''),
      options = gather_options ext r,
      next_id = or_None (safe_str ext (row_get r ''NextId''))\<rparr>"

definition check_row :: "py_ext \<Rightarrow> row \<Rightarrow> ValueError option" where
  \<comment> \<open>the two \<open>raise\<close> of the loop body, for a row with a non-empty id\<close>
  "check_row ext r =
     (let qid = row_qid ext r;
          qtype = norm (safe_str ext (row_get r ''Type''))
      in if qtype \<notin> set [''single'', ''multi'', ''text'', ''number'']
         then Some (Invalid_type qid qtype)
         else if qtype \<in> set [''single'', ''multi''] \<and> gather_options ext r = []
         then Some (No_answers qid)
         else None)"

fun question_rows :: "py_ext \<Rightarrow> row list \<Rightarrow> qdict \<Rightarrow> ValueError + qdict" where
  \<comment> \<open>the loop \<open>for _, r in qrows.iterrows()\<close>, from the dict built so far\<close>
  "question_rows ext [] qs = Inr qs"
| "question_rows ext (r # rs) qs =
     (let qid = row_qid ext r
      in if qid = [] then question_rows ext rs qs
         else (case check_row ext r of
                 Some e \<Rightarrow> Inl e
               | None \<Rightarrow> question_rows ext rs (AList.update qid (make_question ext r) qs)))"

definition final_title_default :: string where
  \<comment> \<open>the Cyrillic literal of line 120, in UTF-8\<close>
  "final_title_default =
     [CHR 0xD0, CHR 0x93, CHR 0xD0, CHR 0xBE, CHR 0xD1, CHR 0x82,
      CHR 0xD0, CHR 0xBE, CHR 0xD0, CHR 0xB2, CHR 0xD0, CHR 0xBE]"

definition final_text_default :: string where
  \<comment> \<open>the literal of line 121: a Cyrillic sentence in UTF-8, a newline, \<open>{answers}\<close>\<close>
  "final_text_default =
     [CHR 0xD0, CHR 0xA1, CHR 0xD0, CHR 0xBF, CHR 0xD0, CHR 0xB0, CHR 0xD1, CHR 0x81,
      CHR 0xD0, CHR 0xB8, CHR 0xD0, CHR 0xB1, CHR 0xD0, CHR 0xBE, CHR 0x21, CHR 0x20,
      CHR 0xD0, CHR 0x92, CHR 0xD0, CHR 0xB0, CHR 0xD1, CHR 0x88, CHR 0xD0, CHR 0xB8,
      CHR 0x20, CHR 0xD0, CHR 0xBE, CHR 0xD1, CHR 0x82, CHR 0xD0, CHR 0xB2, CHR 0xD0,
      CHR 0xB5, CHR 0xD1, CHR 0x82, CHR 0xD1, CHR 0x8B, CHR 0x3A, CHR 0x0A]
     @ ''{answers}''"

definition meta_rows :: "py_ext \<Rightarrow> dataframe \<Rightarrow> row list" where
  "meta_rows ext df = filter (\<lambda>r. row_type ext r = ''survey'') (rows df)"

definition qrows :: "py_ext \<Rightarrow> dataframe \<Rightarrow> row list" where
  "qrows ext df = filter (\<lambda>r. row_type ext r = ''question'') (rows df)"

definition load_survey_from_excel :: "py_ext \<Rightarrow> string \<Rightarrow> dataframe \<Rightarrow> ValueError + survey" where
  "load_survey_from_excel ext filepath df =
     (let missing_core = filter (\<lambda>c. c \<notin> set (map strip (columns df))) required
      in if missing_core \<noteq> [] then Inl (Missing_columns missing_core)
      else
       let k = slugify filepath
       in (case meta_rows ext df of
             [] \<Rightarrow> Inl No_survey_row
           | m # _ \<Rightarrow>
              let t = or_str (safe_str ext (row_get m ''SurveyTitle'')) k;
                  d = safe_str ext (row_get m ''SurveyDescription'');
                  start = safe_str ext (row_get m ''StartQuestionId'');
                  ft = or_str (safe_str ext (row_get m ''FinalTitle'')) final_title_default;
                  fx = or_str (safe_str ext (row_get m ''FinalText'')) final_text_default
              in (case question_rows ext (qrows ext df) [] of
                    Inl e \<Rightarrow> Inl e
                  | Inr qs \<Rightarrow>
                     (case qs of
                        [] \<Rightarrow> Inl No_questions
                      | (first, _) # _ \<Rightarrow>
                         Inr \<lparr>key = k,
                              file_name = basename filepath,
                              s_title = t,
                              description = d,
                              start_qid =
                                (if start = [] \<or> map_of qs start = None then first else start),
                              final_title = ft,
                              final_text = fx,
                              questions = qs\<rparr>))))"

section \<open>Survey registry\<close>

type_synonym registry = "(string \<times> survey) list"

definition path_join :: "string \<Rightarrow> string \<Rightarrow> string" where
  \<comment> \<open>\<open>os.path.join(a, b)\<close> (POSIX)\<close>
  "path_join a b =
     (if prefix ''/'' b then b
      else if a = [] \<or> suffix ''/'' a then a @ b
      else a @ ''/'' @ b)"

definition register :: "registry \<Rightarrow> survey \<Rightarrow> registry" where
  \<comment> \<open>lines 204 to 218: the key made unique, and the survey stored\<close>
  "register surveys s =
     (let s = (if map_of surveys (key s) \<noteq> None
               then s\<lparr>key := key s @ ''_'' @ str_int (int (length surveys) + 1)\<rparr>
               else s)
      in AList.update (key s) s surveys)"

fun load_files :: "py_ext \<Rightarrow> string \<Rightarrow> (string \<times> dataframe) list \<Rightarrow> registry
    \<Rightarrow> ValueError + registry" where
  \<comment> \<open>the loop over \<open>os.listdir(data_dir)\<close>; each name comes with the sheet read from it\<close>
  "load_files ext data_dir [] surveys = Inr surveys"
| "load_files ext data_dir ((name, df) # fs) surveys =
     (if \<not> suffix ''.xlsx'' (lower name) then load_files ext data_dir fs surveys
      else if prefix ''~$'' name then load_files ext data_dir fs surveys
      else (case load_survey_from_excel ext (path_join data_dir name) df of
              Inl e \<Rightarrow> Inl e
            | Inr s \<Rightarrow> load_files ext data_dir fs (register surveys s)))"

definition load_all_surveys :: "py_ext \<Rightarrow> string \<Rightarrow> (string \<times> dataframe) list option
    \<Rightarrow> ValueError + registry" where
  \<comment> \<open>the listing is \<open>None\<close> when \<open>data_dir\<close> is not a directory\<close>
  "load_all_surveys ext data_dir listing =
     (case listing of
        None \<Rightarrow> Inr []
      | Some fs \<Rightarrow> load_files ext data_dir fs [])"

section \<open>Branching engine and result formatter\<close>

text \<open>
  An answer record is the dict \<open>api_answer\<close> appends: five strings. The accumulator the
  client sends back is a list of such records (\<open>List[dict]\<close> in the source); \<open>[]\<close> when
  the body has none. The other keys of the body are arbitrary values, \<open>PNone\<close> when absent.
\<close>

record answer =
  a_qid :: string
  question_title :: string
  question_text :: string
  a_type :: string
  value_text :: string

record payload =
  p_qid :: pyval
  p_answers :: "answer list"
  p_option_idx :: pyval
  p_option_idxs :: pyval
  p_value :: pyval

datatype response =
    Abort nat
  | Fail string "string option" nat
  | AdvancedTo string "answer list"
  | Finished string string "answer list"

definition get_survey_or_404 :: "registry \<Rightarrow> string \<Rightarrow> response + survey" where
  "get_survey_or_404 SURVEYS k =
     (case map_of SURVEYS k of None \<Rightarrow> Inl (Abort 404) | Some s \<Rightarrow> Inr s)"

definition question_default :: string where
  \<comment> \<open>the Cyrillic literal of line 275, in UTF-8\<close>
  "question_default =
     [CHR 0xD0, CHR 0x92, CHR 0xD0, CHR 0xBE, CHR 0xD0, CHR 0xBF,
      CHR 0xD1, CHR 0x80, CHR 0xD0, CHR 0xBE, CHR 0xD1, CHR 0x81]"

definition answer_line :: "answer \<Rightarrow> string" where
  \<comment> \<open>the body of the loop of \<open>_answers_to_text\<close>\<close>
  "answer_line a =
     (let qtitle = or_str (question_title a) (or_str (a_qid a) question_default);
          aval = or_str (value_text a) []
      in qtitle @ '': '' @ aval)"

definition answers_to_text :: "answer list \<Rightarrow> string" where
  "answers_to_text answers = join [CHR 0x0A] (map answer_line answers)"

definition evaluate :: "py_ext \<Rightarrow> question \<Rightarrow> payload \<Rightarrow> response + (string \<times> string option)" where
  \<comment> \<open>lines 301 to 346: the rejection, or \<open>value_text\<close> and \<open>next_qid\<close>\<close>
  "evaluate ext q data =
     (if qtype q = ''single'' then
        (case as_int (p_option_idx data) of
           None \<Rightarrow> Inl (Fail ''bad_request'' None 400)
         | Some option_idx \<Rightarrow>
            (case find (\<lambda>x. idx x = option_idx) (options q) of
               None \<Rightarrow> Inl (Fail ''invalid_option'' None 400)
             | Some x \<Rightarrow> Inr (opt_text x, next_qid x)))
      else if qtype q = ''multi'' then
        (case p_option_idxs data of
           PList xs \<Rightarrow>
            (if list_all (\<lambda>x. as_int x \<noteq> None) xs then
               (let option_idxs = sort (remdups (map (\<lambda>x. the (as_int x)) xs));
                    chosen = map opt_text (filter (\<lambda>x. idx x \<in> set option_idxs) (options q))
                in if chosen = [] then Inl (Fail ''no_selection'' None 400)
                   else Inr (join '', '' chosen, next_id q))
             else Inl (Fail ''bad_request'' None 400))
         | _ \<Rightarrow> Inl (Fail ''bad_request'' None 400))
      else if qtype q = ''text'' then
        (let v = safe_str ext (p_value data)
         in if v = [] then Inl (Fail ''empty_value'' None 400)
            else Inr (v, next_id q))
      else if qtype q = ''number'' then
        (let v = p_value data
         in if as_int v \<noteq> None \<or> is_float v then Inr (py_str ext v, next_id q)
            else (case py_float ext (safe_str ext v) of
                    None \<Rightarrow> Inl (Fail ''bad_number'' None 400)
                  | Some r \<Rightarrow> Inr (r, next_id q)))
      else Inl (Fail ''unsupported_type'' None 500))"

definition respond :: "survey \<Rightarrow> question \<Rightarrow> string \<Rightarrow> answer list \<Rightarrow> string
    \<Rightarrow> string option \<Rightarrow> response" where
  \<comment> \<open>lines 348 to 378: the record appended, then finish, fault or advance\<close>
  "respond s q request_qid prior v next =
     (let answers = prior @
            [\<lparr>a_qid = request_qid, question_title = title q, question_text = q_text q,
              a_type = qtype q, value_text = v\<rparr>]
      in (case next of
            None \<Rightarrow>
              Finished (final_title s)
                (replace ''{answers}'' (answers_to_text answers) (or_str (final_text s) []))
                answers
          | Some n \<Rightarrow>
              if n = [] then
                Finished (final_title s)
                  (replace ''{answers}'' (answers_to_text answers) (or_str (final_text s) []))
                  answers
              else if map_of (questions s) n = None
              then Fail ''next_question_missing'' (Some n) 500
              else AdvancedTo n answers))"

definition api_answer :: "py_ext \<Rightarrow> registry \<Rightarrow> string \<Rightarrow> payload \<Rightarrow> response" where
  "api_answer ext SURVEYS survey_key data =
     (case get_survey_or_404 SURVEYS survey_key of
        Inl r \<Rightarrow> r
      | Inr s \<Rightarrow>
         (let request_qid = safe_str ext (p_qid data)
          in if request_qid = [] then Fail ''bad_request'' None 400
             else (case map_of (questions s) request_qid of
                     None \<Rightarrow> Fail ''question_not_found'' None 404
                   | Some q \<Rightarrow>
                      (case evaluate ext q data of
                         Inl r \<Rightarrow> r
                       | Inr (v, next) \<Rightarrow> respond s q request_qid (p_answers data) v next))))"

definition returned_answers :: "response \<Rightarrow> answer list option" where
  \<comment> \<open>the \<open>answers\<close> key of the JSON body, when the body has one\<close>
  "returned_answers r =
     (case r of
        AdvancedTo n answers \<Rightarrow> Some answers
      | Finished t x answers \<Rightarrow> Some answers
      | _ \<Rightarrow> None)"

section \<open>The specification's words, for comparison with the code\<close>

definition resolved_options :: "question \<Rightarrow> int list \<Rightarrow> opt list" where
  \<comment> \<open>the submitted indices that match an option of the question, without duplicates,
      in ascending order, each resolved to the option that has the index\<close>
  "resolved_options q idxs =
     map (\<lambda>i. the (find (\<lambda>x. idx x = i) (options q)))
       (sort (remdups (filter (\<lambda>i. i \<in> idx ` set (options q)) idxs)))"

section \<open>A sample definition\<close>

definition ext0 :: py_ext where
  "ext0 = \<lparr>py_float = (\<lambda>s. if s = ''5'' then Some ''5.0'' else None),
           str_container = (\<lambda>v. ''[]''),
           isna_container = (\<lambda>v. False)\<rparr>"

definition m_demo :: row where
  "m_demo = [(''RowType'', PStr ''survey''), (''SurveyTitle'', PStr ''Demo''),
             (''StartQuestionId'', PStr ''Q0''), (''FinalText'', PStr ''Result: {answers}'')]"

definition r_q1 :: row where
  "r_q1 = [(''RowType'', PStr ''question''), (''Id'', PStr ''Q1''), (''Type'', PStr ''Single''),
           (''Answer1'', PStr ''Yes''), (''NextIfAnswer1'', PStr ''Q2''),
           (''Answer2'', PStr ''No''),
           (''Answer3'', PStr ''Maybe''), (''NextIfAnswer3'', PStr ''Q9'')]"

definition r_blank :: row where
  "r_blank = [(''RowType'', PStr ''question''), (''Id'', PFloat ''nan''), (''Type'', PStr ''bogus'')]"

definition r_q2_old :: row where
  "r_q2_old = [(''RowType'', PStr ''question''), (''Id'', PStr ''Q2''), (''Type'', PStr ''text'')]"

definition r_q2 :: row where
  "r_q2 = [(''RowType'', PStr ''question''), (''Id'', PStr '' Q2''), (''Type'', PStr ''multi''),
           (''QuestionTitle'', PStr ''Pick''), (''NextId'', PStr ''Q3''),
           (''Answer3'', PStr ''A''), (''Answer7'', PStr ''B'')]"

definition r_q3 :: row where
  "r_q3 = [(''RowType'', PStr ''question''), (''Id'', PStr ''Q3''), (''Type'', PStr ''text''),
           (''QuestionTitle'', PStr ''Name''), (''NextId'', PStr ''Q4'')]"

definition r_q4 :: row where
  "r_q4 = [(''RowType'', PStr ''question''), (''Id'', PStr ''Q4''), (''Type'', PStr ''number''),
           (''QuestionTitle'', PStr ''Age'')]"

definition df_demo :: dataframe where
  "df_demo = \<lparr>columns = required, rows = [m_demo, r_q1, r_blank, r_q2_old, r_q2, r_q3, r_q4]\<rparr>"

definition q1_demo :: question where
  "q1_demo =
     \<lparr>qid = ''Q1'', qtype = ''single'', title = [], q_text = [], long_text = [], hints = [],
      options = [\<lparr>idx = 1, opt_text = ''Yes'', next_qid = Some ''Q2''\<rparr>,
                 \<lparr>idx = 2, opt_text = ''No'', next_qid = None\<rparr>,
                 \<lparr>idx = 3, opt_text = ''Maybe'', next_qid = Some ''Q9''\<rparr>],
      next_id = None\<rparr>"

definition q2_demo :: question where
  "q2_demo =
     \<lparr>qid = ''Q2'', qtype = ''multi'', title = ''Pick'', q_text = [], long_text = [], hints = [],
      options = [\<lparr>idx = 3, opt_text = ''A'', next_qid = None\<rparr>,
                 \<lparr>idx = 7, opt_text = ''B'', next_qid = None\<rparr>],
      next_id = Some ''Q3''\<rparr>"

definition q3_demo :: question where
  "q3_demo =
     \<lparr>qid = ''Q3'', qtype = ''text'', title = ''Name'', q_text = [], long_text = [], hints = [],
      options = [], next_id = Some ''Q4''\<rparr>"

definition q4_demo :: question where
  "q4_demo =
     \<lparr>qid = ''Q4'', qtype = ''number'', title = ''Age'', q_text = [], long_text = [], hints = [],
      options = [], next_id = None\<rparr>"

definition s_demo :: survey where
  "s_demo =
     \<lparr>key = ''demo'', file_name = ''demo.xlsx'', s_title = ''Demo'', description = [],
      start_qid = ''Q1'', final_title = final_title_default, final_text = ''Result: {answers}'',
      questions = [(''Q1'', q1_demo), (''Q2'', q2_demo), (''Q3'', q3_demo), (''Q4'', q4_demo)]\<rparr>"

definition body :: "string \<Rightarrow> pyval \<Rightarrow> pyval \<Rightarrow> pyval \<Rightarrow> payload" where
  \<comment> \<open>a request body with no prior answers\<close>
  "body q i is v =
     \<lparr>p_qid = PStr q, p_answers = [], p_option_idx = i, p_option_idxs = is, p_value = v\<rparr>"

definition demo_answers :: "answer list" where
  "demo_answers =
     [\<lparr>a_qid = ''Q1'', question_title = [], question_text = [], a_type = ''single'',
       value_text = ''No''\<rparr>,
      \<lparr>a_qid = ''Q3'', question_title = ''Name'', question_text = [], a_type = ''text'',
       value_text = ''Ada''\<rparr>]"

definition df_blank :: dataframe where
  "df_blank = \<lparr>columns = required, rows = [m_demo, r_blank]\<rparr>"

section \<open>Lemmas on the definition parser\<close>

lemma question_rows_skip:
  "question_rows ext rs qs = question_rows ext (filter (\<lambda>r. row_qid ext r \<noteq> []) rs) qs"
  by (induction rs arbitrary: qs) (simp_all add: Let_def split: option.splits)

lemma question_rows_Inr:
  "question_rows ext rs qs = Inr qs' \<longleftrightarrow>
     (\<forall>r\<in>set rs. row_qid ext r \<noteq> [] \<longrightarrow> check_row ext r = None)
     \<and> qs' = fold (\<lambda>r. AList.update (row_qid ext r) (make_question ext r))
               (filter (\<lambda>r. row_qid ext r \<noteq> []) rs) qs"
proof (induction rs arbitrary: qs)
  case Nil
  then show ?case by auto
next
  case (Cons r rs)
  show ?case
  proof (cases "row_qid ext r = []")
    case True
    then show ?thesis using Cons.IH by simp
  next
    case False
    show ?thesis
    proof (cases "check_row ext r")
      case None
      then show ?thesis using False Cons.IH by simp
    next
      case (Some e)
      then show ?thesis using False by auto
    qed
  qed
qed

lemma map_of_fold_update:
  "map_of (fold (\<lambda>r. AList.update (f r) (g r)) rs qs) k =
     (case filter (\<lambda>r. f r = k) rs of
        [] \<Rightarrow> map_of qs k
      | x # xs \<Rightarrow> Some (g (last (x # xs))))"
proof (induction rs arbitrary: qs)
  case Nil
  then show ?case by simp
next
  case (Cons r rs)
  show ?case
    by (cases "filter (\<lambda>r. f r = k) rs") (auto simp: Cons.IH update_conv')
qed

lemma distinct_fold_update:
  "distinct (map fst qs) \<Longrightarrow> distinct (map fst (fold (\<lambda>r. AList.update (f r) (g r)) rs qs))"
  by (induction rs arbitrary: qs) (simp_all add: distinct_update)

lemma hd_update: "qs \<noteq> [] \<Longrightarrow> fst (hd (AList.update k v qs)) = fst (hd qs)"
  by (cases qs) auto

lemma hd_fold_update:
  "qs \<noteq> [] \<Longrightarrow> fold (\<lambda>r. AList.update (f r) (g r)) rs qs \<noteq> []
     \<and> fst (hd (fold (\<lambda>r. AList.update (f r) (g r)) rs qs)) = fst (hd qs)"
  by (induction rs arbitrary: qs) (simp_all add: hd_update)

lemma hd_fold_update_Nil:
  "rs \<noteq> [] \<Longrightarrow> fold (\<lambda>r. AList.update (f r) (g r)) rs [] \<noteq> []
     \<and> fst (hd (fold (\<lambda>r. AList.update (f r) (g r)) rs [])) = f (hd rs)"
  using hd_fold_update [of "[(f (hd rs), g (hd rs))]" f g "tl rs"]
  by (cases rs) simp_all

lemma fold_update_Nil_iff:
  "fold (\<lambda>r. AList.update (f r) (g r)) rs [] = [] \<longleftrightarrow> rs = []"
  using hd_fold_update_Nil [of rs f g] by auto

lemma load_survey_Inr:
  "load_survey_from_excel ext filepath df = Inr s \<longleftrightarrow>
     filter (\<lambda>c. c \<notin> set (map strip (columns df))) required = []
     \<and> meta_rows ext df \<noteq> []
     \<and> (\<exists>qs. question_rows ext (qrows ext df) [] = Inr qs \<and> qs \<noteq> []
          \<and> s = \<lparr>key = slugify filepath,
                  file_name = basename filepath,
                  s_title = or_str (safe_str ext (row_get (hd (meta_rows ext df)) ''SurveyTitle''))
                              (slugify filepath),
                  description = safe_str ext (row_get (hd (meta_rows ext df)) ''SurveyDescription''),
                  start_qid =
                    (let start = safe_str ext (row_get (hd (meta_rows ext df)) ''StartQuestionId'')
                     in if start = [] \<or> map_of qs start = None then fst (hd qs) else start),
                  final_title = or_str (safe_str ext (row_get (hd (meta_rows ext df)) ''FinalTitle''))
                                  final_title_default,
                  final_text = or_str (safe_str ext (row_get (hd (meta_rows ext df)) ''FinalText''))
                                 final_text_default,
                  questions = qs\<rparr>)"
  by (auto simp: load_survey_from_excel_def Let_def split: list.splits sum.splits)

section \<open>The sample definition, parsed and loaded\<close>

lemma demo_row_types:
  "row_type ext0 m_demo = ''survey''" "row_type ext0 r_q1 = ''question''"
  "row_type ext0 r_blank = ''question''" "row_type ext0 r_q2_old = ''question''"
  "row_type ext0 r_q2 = ''question''" "row_type ext0 r_q3 = ''question''"
  "row_type ext0 r_q4 = ''question''"
  by code_simp+

lemma demo_row_qids:
  "row_qid ext0 r_q1 = ''Q1''" "row_qid ext0 r_blank = []" "row_qid ext0 r_q2_old = ''Q2''"
  "row_qid ext0 r_q2 = ''Q2''" "row_qid ext0 r_q3 = ''Q3''" "row_qid ext0 r_q4 = ''Q4''"
  by code_simp+

lemma demo_checks:
  "check_row ext0 r_q1 = None" "check_row ext0 r_q2_old = None" "check_row ext0 r_q2 = None"
  "check_row ext0 r_q3 = None" "check_row ext0 r_q4 = None"
  by code_simp+

lemma demo_make:
  "make_question ext0 r_q1 = q1_demo" "make_question ext0 r_q2 = q2_demo"
  "make_question ext0 r_q3 = q3_demo" "make_question ext0 r_q4 = q4_demo"
  by code_simp+

lemma demo_columns:
  "filter (\<lambda>c. c \<notin> set (map strip (columns df_demo))) required = []"
  by code_simp

lemma demo_meta:
  "safe_str ext0 (row_get m_demo ''SurveyTitle'') = ''Demo''"
  "safe_str ext0 (row_get m_demo ''SurveyDescription'') = []"
  "safe_str ext0 (row_get m_demo ''StartQuestionId'') = ''Q0''"
  "safe_str ext0 (row_get m_demo ''FinalTitle'') = []"
  "safe_str ext0 (row_get m_demo ''FinalText'') = ''Result: {answers}''"
  by code_simp+

lemma demo_path:
  "slugify ''data/demo.xlsx'' = ''demo''" "basename ''data/demo.xlsx'' = ''demo.xlsx''"
  by code_simp+

lemma demo_meta_rows: "meta_rows ext0 df_demo = [m_demo]"
  by (simp add: meta_rows_def df_demo_def demo_row_types)

lemma demo_qrows: "qrows ext0 df_demo = [r_q1, r_blank, r_q2_old, r_q2, r_q3, r_q4]"
  by (simp add: qrows_def df_demo_def demo_row_types)

lemma demo_question_rows:
  "question_rows ext0 [r_q1, r_blank, r_q2_old, r_q2, r_q3, r_q4] []
     = Inr [(''Q1'', q1_demo), (''Q2'', q2_demo), (''Q3'', q3_demo), (''Q4'', q4_demo)]"
  by (simp add: demo_row_qids demo_checks demo_make)

lemma load_survey_InrI:
  assumes "filter (\<lambda>c. c \<notin> set (map strip (columns df))) required = []"
    and "meta_rows ext df = m # ms"
    and "question_rows ext (qrows ext df) [] = Inr qs" and "qs \<noteq> []"
  shows "load_survey_from_excel ext filepath df =
           Inr \<lparr>key = slugify filepath,
                file_name = basename filepath,
                s_title = or_str (safe_str ext (row_get m ''SurveyTitle'')) (slugify filepath),
                description = safe_str ext (row_get m ''SurveyDescription''),
                start_qid =
                  (let start = safe_str ext (row_get m ''StartQuestionId'')
                   in if start = [] \<or> map_of qs start = None then fst (hd qs) else start),
                final_title = or_str (safe_str ext (row_get m ''FinalTitle'')) final_title_default,
                final_text = or_str (safe_str ext (row_get m ''FinalText'')) final_text_default,
                questions = qs\<rparr>"
  unfolding load_survey_Inr using assms by simp

lemma load_demo: "load_survey_from_excel ext0 ''data/demo.xlsx'' df_demo = Inr s_demo"
proof -
  have q: "question_rows ext0 (qrows ext0 df_demo) [] = Inr (questions s_demo)"
    unfolding demo_qrows demo_question_rows by (simp add: s_demo_def)
  have ne: "questions s_demo \<noteq> []"
    by (simp add: s_demo_def)
  have st: "map_of (questions s_demo) ''Q0'' = None" "fst (hd (questions s_demo)) = ''Q1''"
    by (simp_all add: s_demo_def)
  show ?thesis
    unfolding load_survey_InrI [OF demo_columns demo_meta_rows q ne] demo_meta demo_path
    by (simp add: st or_str_def) (simp add: s_demo_def)
qed

lemma load_demo_at:
  "load_survey_from_excel ext0 p df_demo
     = Inr (s_demo\<lparr>key := slugify p, file_name := basename p\<rparr>)"
proof -
  have q: "question_rows ext0 (qrows ext0 df_demo) [] = Inr (questions s_demo)"
    unfolding demo_qrows demo_question_rows by (simp add: s_demo_def)
  have ne: "questions s_demo \<noteq> []"
    by (simp add: s_demo_def)
  have st: "map_of (questions s_demo) ''Q0'' = None" "fst (hd (questions s_demo)) = ''Q1''"
    by (simp_all add: s_demo_def)
  show ?thesis
    unfolding load_survey_InrI [OF demo_columns demo_meta_rows q ne] demo_meta
    by (simp add: st or_str_def) (simp add: s_demo_def)
qed

lemma demo_file2:
  "suffix ''.xlsx'' (lower ''Demo!.XLSX'')" "\<not> prefix ''~$'' ''Demo!.XLSX''"
  "path_join ''data'' ''Demo!.XLSX'' = ''data/Demo!.XLSX''"
  "slugify ''data/Demo!.XLSX'' = ''Demo''" "basename ''data/Demo!.XLSX'' = ''Demo!.XLSX''"
  "slugify ''data/Demo.xlsx'' = ''Demo''" "basename ''data/Demo.xlsx'' = ''Demo.xlsx''"
  "suffix ''.xlsx'' (lower ''Demo.xlsx'')" "\<not> prefix ''~$'' ''Demo.xlsx''"
  "path_join ''data'' ''Demo.xlsx'' = ''data/Demo.xlsx''"
  by code_simp+

lemma blank_columns: "filter (\<lambda>c. c \<notin> set (map strip (columns df_blank))) required = []"
  using demo_columns by (simp add: df_blank_def df_demo_def)

lemma blank_rows: "meta_rows ext0 df_blank = [m_demo]" "qrows ext0 df_blank = [r_blank]"
  by (simp_all add: meta_rows_def qrows_def df_blank_def demo_row_types)

lemma demo_file:
  "suffix ''.xlsx'' (lower ''demo.xlsx'')" "\<not> prefix ''~$'' ''demo.xlsx''"
  "path_join ''data'' ''demo.xlsx'' = ''data/demo.xlsx''"
  by code_simp+

lemma load_all_demo:
  "load_all_surveys ext0 ''data'' (Some [(''demo.xlsx'', df_demo)]) = Inr [(''demo'', s_demo)]"
proof -
  have "register [] s_demo = [(''demo'', s_demo)]"
    by (simp add: register_def s_demo_def)
  then show ?thesis
    by (simp add: load_all_surveys_def demo_file load_demo)
qed

section \<open>Definition parser: the starting question\<close>

text \<open>
  C3. When the parser returns a survey, its start question id is a key of its questions:
  it is the id declared in the survey row when that is not empty and is a key of the
  questions, and otherwise the id of the first question row that has an id.
\<close>

theorem start_qid_in_questions:
  assumes "load_survey_from_excel ext filepath df = Inr s"
  shows "map_of (questions s) (start_qid s) \<noteq> None
       \<and> start_qid s =
           (let declared = safe_str ext (row_get (hd (meta_rows ext df)) ''StartQuestionId'')
            in if declared \<noteq> [] \<and> map_of (questions s) declared \<noteq> None then declared
               else row_qid ext (hd (filter (\<lambda>r. row_qid ext r \<noteq> []) (qrows ext df))))"
proof -
  let ?declared = "safe_str ext (row_get (hd (meta_rows ext df)) ''StartQuestionId'')"
  let ?rs = "filter (\<lambda>r. row_qid ext r \<noteq> []) (qrows ext df)"
  from assms obtain qs where qs: "question_rows ext (qrows ext df) [] = Inr qs" "qs \<noteq> []"
    and q: "questions s = qs"
    and st: "start_qid s = (if ?declared = [] \<or> map_of qs ?declared = None
                            then fst (hd qs) else ?declared)"
    unfolding load_survey_Inr by (auto simp: Let_def)
  from qs(1) have f: "qs = fold (\<lambda>r. AList.update (row_qid ext r) (make_question ext r)) ?rs []"
    by (simp add: question_rows_Inr)
  with qs(2) have "?rs \<noteq> []"
    by (auto simp: fold_update_Nil_iff)
  then have first: "fst (hd qs) = row_qid ext (hd ?rs)"
    unfolding f by (simp add: hd_fold_update_Nil)
  have "map_of qs (fst (hd qs)) \<noteq> None"
    using qs(2) by (cases qs) auto
  with st q first show ?thesis
    by (auto simp: Let_def)
qed

theorem start_qid_in_questions_witness:
  "load_survey_from_excel ext0 ''data/demo.xlsx'' df_demo = Inr s_demo
   \<and> safe_str ext0 (row_get (hd (meta_rows ext0 df_demo)) ''StartQuestionId'') = ''Q0''
   \<and> start_qid s_demo = ''Q1''
   \<and> map_of (questions s_demo) (start_qid s_demo) \<noteq> None"
proof -
  have d: "safe_str ext0 (row_get (hd (meta_rows ext0 df_demo)) ''StartQuestionId'') = ''Q0''"
    by (simp add: demo_meta_rows demo_meta)
  have n: "map_of (questions s_demo) ''Q0'' = None"
    by (simp add: s_demo_def)
  have h: "row_qid ext0 (hd (filter (\<lambda>r. row_qid ext0 r \<noteq> []) (qrows ext0 df_demo))) = ''Q1''"
    by (simp add: demo_qrows demo_row_qids)
  note t = start_qid_in_questions [OF load_demo, unfolded d h Let_def n]
  have a: "map_of (questions s_demo) (start_qid s_demo) \<noteq> None"
    by (rule conjunct1 [OF t])
  have b: "start_qid s_demo = ''Q1''"
    using conjunct2 [OF t] by simp
  from load_demo d a b show ?thesis by blast
qed

section \<open>Definition parser: rows without id\<close>

text \<open>
  C9. A question row whose id is empty is skipped, whatever its other cells hold, and
  raises nothing; when the loop over the question rows ends with no question (as it does
  when every row has an empty id), the parser returns no survey: with the columns and the
  survey row in place it raises the error for a definition without questions.
\<close>

theorem blank_ids_skipped:
  "(row_qid ext r = [] \<longrightarrow> question_rows ext (r # rs) qs = question_rows ext rs qs)
   \<and> ((\<forall>r\<in>set (qrows ext df). row_qid ext r = []) \<longrightarrow>
        question_rows ext (qrows ext df) [] = Inr [])
   \<and> (question_rows ext (qrows ext df) [] = Inr [] \<longrightarrow>
        (\<forall>s. load_survey_from_excel ext filepath df \<noteq> Inr s))
   \<and> (filter (\<lambda>c. c \<notin> set (map strip (columns df))) required = []
        \<and> meta_rows ext df \<noteq> [] \<and> question_rows ext (qrows ext df) [] = Inr [] \<longrightarrow>
        load_survey_from_excel ext filepath df = Inl No_questions)"
proof -
  have 1: "row_qid ext r = [] \<longrightarrow> question_rows ext (r # rs) qs = question_rows ext rs qs"
    by simp
  have 2: "(\<forall>r\<in>set (qrows ext df). row_qid ext r = []) \<longrightarrow>
        question_rows ext (qrows ext df) [] = Inr []"
  proof
    assume a: "\<forall>r\<in>set (qrows ext df). row_qid ext r = []"
    then have "filter (\<lambda>r. row_qid ext r \<noteq> []) (qrows ext df) = []"
      by (simp add: filter_empty_conv)
    then show "question_rows ext (qrows ext df) [] = Inr []"
      using question_rows_skip [of ext "qrows ext df" "[]"] by simp
  qed
  have 3: "question_rows ext (qrows ext df) [] = Inr [] \<longrightarrow>
        (\<forall>s. load_survey_from_excel ext filepath df \<noteq> Inr s)"
    by (auto simp: load_survey_Inr)
  have 4: "filter (\<lambda>c. c \<notin> set (map strip (columns df))) required = []
        \<and> meta_rows ext df \<noteq> [] \<and> question_rows ext (qrows ext df) [] = Inr [] \<longrightarrow>
        load_survey_from_excel ext filepath df = Inl No_questions"
    by (auto simp: load_survey_from_excel_def Let_def split: list.splits)
  from 1 2 3 4 show ?thesis by blast
qed

theorem blank_ids_skipped_witness:
  "row_qid ext0 r_blank = []
   \<and> question_rows ext0 (r_blank # [r_q4]) [] = question_rows ext0 [r_q4] []
   \<and> question_rows ext0 (qrows ext0 df_blank) [] = Inr []
   \<and> load_survey_from_excel ext0 ''data/blank.xlsx'' df_blank = Inl No_questions"
proof -
  note b = blank_ids_skipped [of ext0 _ _ _ df_blank "''data/blank.xlsx''"]
  have 1: "question_rows ext0 (r_blank # [r_q4]) [] = question_rows ext0 [r_q4] []"
    using b [of r_blank "[r_q4]" "[]"] demo_row_qids(2) by blast
  have 2: "question_rows ext0 (qrows ext0 df_blank) [] = Inr []"
    using b [of r_blank "[]" "[]"] by (simp add: blank_rows demo_row_qids)
  have "meta_rows ext0 df_blank \<noteq> []" by (simp add: blank_rows)
  with 2 blank_columns
  have 3: "load_survey_from_excel ext0 ''data/blank.xlsx'' df_blank = Inl No_questions"
    using b [of r_blank "[]" "[]"] by blast
  from 1 2 3 demo_row_qids(2) show ?thesis by blast
qed

section \<open>Definition parser: repeated ids\<close>

text \<open>
  C10. Rows that repeat an id raise no error: the parser returns a survey exactly when
  the columns and the survey row are there, every row with an id passes its own checks
  and some row has an id. In the survey returned, the keys of the questions are distinct
  and each id is mapped to the question built from the last row that has it.
\<close>

theorem duplicate_ids_last_wins:
  "((\<exists>s. load_survey_from_excel ext filepath df = Inr s) \<longleftrightarrow>
      filter (\<lambda>c. c \<notin> set (map strip (columns df))) required = []
      \<and> meta_rows ext df \<noteq> []
      \<and> (\<forall>r\<in>set (qrows ext df). row_qid ext r \<noteq> [] \<longrightarrow> check_row ext r = None)
      \<and> (\<exists>r\<in>set (qrows ext df). row_qid ext r \<noteq> []))
   \<and> (load_survey_from_excel ext filepath df = Inr s \<longrightarrow>
        distinct (map fst (questions s))
        \<and> (\<forall>r\<in>set (qrows ext df). row_qid ext r \<noteq> [] \<longrightarrow>
              map_of (questions s) (row_qid ext r)
                = Some (make_question ext
                    (last (filter (\<lambda>r'. row_qid ext r' = row_qid ext r) (qrows ext df))))))"
proof -
  let ?rs = "filter (\<lambda>r. row_qid ext r \<noteq> []) (qrows ext df)"
  let ?qs = "fold (\<lambda>r. AList.update (row_qid ext r) (make_question ext r)) ?rs []"
  have ne: "?qs \<noteq> [] \<longleftrightarrow> (\<exists>r\<in>set (qrows ext df). row_qid ext r \<noteq> [])"
    by (simp add: fold_update_Nil_iff filter_empty_conv)
  have 1: "(\<exists>s. load_survey_from_excel ext filepath df = Inr s) \<longleftrightarrow>
      filter (\<lambda>c. c \<notin> set (map strip (columns df))) required = []
      \<and> meta_rows ext df \<noteq> []
      \<and> (\<forall>r\<in>set (qrows ext df). row_qid ext r \<noteq> [] \<longrightarrow> check_row ext r = None)
      \<and> (\<exists>r\<in>set (qrows ext df). row_qid ext r \<noteq> [])"
    unfolding load_survey_Inr question_rows_Inr using ne by auto
  have 2: "distinct (map fst (questions s))
        \<and> (\<forall>r\<in>set (qrows ext df). row_qid ext r \<noteq> [] \<longrightarrow>
              map_of (questions s) (row_qid ext r)
                = Some (make_question ext
                    (last (filter (\<lambda>r'. row_qid ext r' = row_qid ext r) (qrows ext df)))))"
    if "load_survey_from_excel ext filepath df = Inr s"
  proof -
    from that have q: "questions s = ?qs"
      unfolding load_survey_Inr question_rows_Inr by auto
    have d: "distinct (map fst ?qs)"
      by (rule distinct_fold_update) simp
    have "map_of ?qs (row_qid ext r)
            = Some (make_question ext
                (last (filter (\<lambda>r'. row_qid ext r' = row_qid ext r) (qrows ext df))))"
      if r: "r \<in> set (qrows ext df)" "row_qid ext r \<noteq> []" for r
    proof -
      have same: "filter (\<lambda>r'. row_qid ext r' = row_qid ext r) ?rs
                    = filter (\<lambda>r'. row_qid ext r' = row_qid ext r) (qrows ext df)"
        using r(2) by (auto intro!: filter_cong)
      have "filter (\<lambda>r'. row_qid ext r' = row_qid ext r) (qrows ext df) \<noteq> []"
        using r(1) by (auto simp: filter_empty_conv)
      then show ?thesis
        unfolding map_of_fold_update same
        by (cases "filter (\<lambda>r'. row_qid ext r' = row_qid ext r) (qrows ext df)") simp_all
    qed
    with d q show ?thesis by simp
  qed
  from 1 2 show ?thesis by blast
qed

theorem duplicate_ids_last_wins_witness:
  "load_survey_from_excel ext0 ''data/demo.xlsx'' df_demo = Inr s_demo
   \<and> row_qid ext0 r_q2_old = ''Q2'' \<and> row_qid ext0 r_q2 = ''Q2''
   \<and> map_of (questions s_demo) ''Q2'' = Some (make_question ext0 r_q2)
   \<and> distinct (map fst (questions s_demo))"
proof -
  note d = duplicate_ids_last_wins [of ext0 "''data/demo.xlsx''" df_demo s_demo]
  have "r_q2_old \<in> set (qrows ext0 df_demo)"
    by (simp add: demo_qrows)
  moreover have "filter (\<lambda>r'. row_qid ext0 r' = row_qid ext0 r_q2_old) (qrows ext0 df_demo)
                   = [r_q2_old, r_q2]"
    by (simp add: demo_qrows demo_row_qids)
  ultimately have "map_of (questions s_demo) ''Q2'' = Some (make_question ext0 r_q2)"
    using d load_demo demo_row_qids(3) by fastforce
  moreover have "distinct (map fst (questions s_demo))"
    using d load_demo by blast
  ultimately show ?thesis
    using load_demo demo_row_qids by blast
qed

section \<open>Survey registry: colliding keys\<close>

lemma str_int_small: "str_int 1 = ''1''" "str_int 2 = ''2''"
  by code_simp+

text \<open>
  C5 (amended). When the key of a parsed survey is already a key of the registry, the
  survey is stored under that key followed by an underscore and the registry's size plus
  one. The new key differs from the key of the first instance, which stays registered
  under its own key.
\<close>

theorem register_collision:
  assumes "map_of surveys (key s) \<noteq> None"
  shows "register surveys s
           = AList.update (key s @ ''_'' @ str_int (int (length surveys) + 1))
               (s\<lparr>key := key s @ ''_'' @ str_int (int (length surveys) + 1)\<rparr>) surveys
       \<and> key s @ ''_'' @ str_int (int (length surveys) + 1) \<noteq> key s
       \<and> map_of (register surveys s) (key s) = map_of surveys (key s)
       \<and> map_of (register surveys s) (key s @ ''_'' @ str_int (int (length surveys) + 1))
           = Some (s\<lparr>key := key s @ ''_'' @ str_int (int (length surveys) + 1)\<rparr>)"
  using assms by (simp add: register_def update_conv')

theorem register_collision_witness:
  "register [(''demo'', s_demo)] s_demo
     = [(''demo'', s_demo), (''demo_2'', s_demo\<lparr>key := ''demo_2''\<rparr>)]
   \<and> ''demo_2'' \<noteq> ''demo''"
proof -
  have k: "key s_demo = ''demo''" by (simp add: s_demo_def)
  have "map_of [(''demo'', s_demo)] (key s_demo) \<noteq> None" by (simp add: k)
  from register_collision [OF this] show ?thesis
    by (simp add: k str_int_small)
qed

text \<open>
  The claim as written has the current size of the registry as the suffix. Of two files
  whose names give the key \<open>Demo\<close>, the second is stored when the registry holds one
  survey, and its key gets the suffix \<open>_2\<close>.
\<close>

theorem register_suffix_counterexample:
  "load_all_surveys ext0 ''data'' (Some [(''Demo.xlsx'', df_demo), (''Demo!.XLSX'', df_demo)])
     = Inr [(''Demo'', s_demo\<lparr>key := ''Demo'', file_name := ''Demo.xlsx''\<rparr>),
            (''Demo_2'', s_demo\<lparr>key := ''Demo_2'', file_name := ''Demo!.XLSX''\<rparr>)]
   \<and> length [(''Demo'', s_demo\<lparr>key := ''Demo'', file_name := ''Demo.xlsx''\<rparr>)] = 1
   \<and> ''Demo_2'' \<noteq> ''Demo'' @ ''1'' \<and> ''Demo_2'' \<noteq> ''Demo'' @ ''_'' @ ''1''"
  by (simp add: load_all_surveys_def demo_file2 load_demo_at register_def str_int_small)

section \<open>Lemmas on the request handler\<close>

lemma or_str_Nil: "or_str a [] = a"
  by (simp add: or_str_def)

lemma api_answer_found:
  assumes "get_survey_or_404 SURVEYS k = Inr s"
    and "safe_str ext (p_qid data) = rq" and "rq \<noteq> []"
    and "map_of (questions s) rq = Some q"
  shows "api_answer ext SURVEYS k data =
           (case evaluate ext q data of
              Inl r \<Rightarrow> r
            | Inr (v, next) \<Rightarrow> respond s q rq (p_answers data) v next)"
  using assms by (simp add: api_answer_def)

lemma demo_registry: "get_survey_or_404 [(''demo'', s_demo)] ''demo'' = Inr s_demo"
  by (simp add: get_survey_or_404_def)

lemma demo_qid:
  "safe_str ext0 (PStr ''Q1'') = ''Q1''" "safe_str ext0 (PStr ''Q2'') = ''Q2''"
  "safe_str ext0 (PStr ''Q3'') = ''Q3''" "safe_str ext0 (PStr ''Q4'') = ''Q4''"
  by code_simp+

lemma demo_questions:
  "map_of (questions s_demo) ''Q1'' = Some q1_demo"
  "map_of (questions s_demo) ''Q2'' = Some q2_demo"
  "map_of (questions s_demo) ''Q3'' = Some q3_demo"
  "map_of (questions s_demo) ''Q4'' = Some q4_demo"
  "map_of (questions s_demo) ''Q9'' = None"
  by (simp_all add: s_demo_def)

section \<open>Branching engine: the next question cannot be resolved\<close>

text \<open>
  C7. When the evaluation of the answer succeeds with a next id that is not empty and is
  not a key of the survey's questions, the handler answers with the error
  \<open>next_question_missing\<close> and status 500: it neither advances nor finishes.
\<close>

theorem next_question_missing_fault:
  assumes "get_survey_or_404 SURVEYS k = Inr s"
    and "safe_str ext (p_qid data) = rq" and "rq \<noteq> []"
    and "map_of (questions s) rq = Some q"
    and "evaluate ext q data = Inr (v, Some n)"
    and "n \<noteq> []" and "map_of (questions s) n = None"
  shows "api_answer ext SURVEYS k data = Fail ''next_question_missing'' (Some n) 500"
  using assms by (simp add: api_answer_found respond_def)

theorem next_question_missing_fault_witness:
  "api_answer ext0 [(''demo'', s_demo)] ''demo''
     \<lparr>p_qid = PStr ''Q1'',
      p_answers = [\<lparr>a_qid = ''Q3'', question_title = ''Name'', question_text = [],
                     a_type = ''text'', value_text = ''Ada''\<rparr>],
      p_option_idx = PInt 3, p_option_idxs = PNone, p_value = PNone\<rparr>
     = Fail ''next_question_missing'' (Some ''Q9'') 500"
proof -
  let ?data = "\<lparr>p_qid = PStr ''Q1'',
      p_answers = [\<lparr>a_qid = ''Q3'', question_title = ''Name'', question_text = [],
                     a_type = ''text'', value_text = ''Ada''\<rparr>],
      p_option_idx = PInt 3, p_option_idxs = PNone, p_value = PNone\<rparr>"
  have ev: "evaluate ext0 q1_demo ?data = Inr (''Maybe'', Some ''Q9'')"
    by (simp add: evaluate_def q1_demo_def)
  show ?thesis
    by (rule next_question_missing_fault
          [OF demo_registry _ _ demo_questions(1) ev _ demo_questions(5)])
       (simp_all add: demo_qid)
qed

section \<open>Branching engine: a single-choice answer\<close>

text \<open>
  C1 (amended). For a \<open>single\<close> question and a submitted index that an option of the
  question has, the handler never rejects the answer: it appends the record whose value is
  the text of the first option with that index, and finishes when that option's next id is
  empty, advances to the next id when it is a key of the survey's questions, and reports
  \<open>next_question_missing\<close> (500) when it is not.
\<close>

theorem single_valid_option_outcome:
  assumes "get_survey_or_404 SURVEYS k = Inr s"
    and "safe_str ext (p_qid data) = rq" and "rq \<noteq> []"
    and "map_of (questions s) rq = Some q"
    and "qtype q = ''single''"
    and "as_int (p_option_idx data) = Some i"
    and "find (\<lambda>x. idx x = i) (options q) = Some x"
  shows "api_answer ext SURVEYS k data =
     (let answers = p_answers data @
            [\<lparr>a_qid = rq, question_title = title q, question_text = q_text q,
              a_type = ''single'', value_text = opt_text x\<rparr>]
      in if next_qid x = None \<or> next_qid x = Some []
         then Finished (final_title s)
                (replace ''{answers}'' (answers_to_text answers) (final_text s)) answers
         else if map_of (questions s) (the (next_qid x)) = None
         then Fail ''next_question_missing'' (next_qid x) 500
         else AdvancedTo (the (next_qid x)) answers)"
  using assms
  by (cases "next_qid x")
     (simp_all add: api_answer_found evaluate_def respond_def or_str_Nil Let_def)

theorem single_valid_option_outcome_witness:
  "api_answer ext0 [(''demo'', s_demo)] ''demo'' (body ''Q1'' (PInt 1) PNone PNone)
     = AdvancedTo ''Q2''
         [\<lparr>a_qid = ''Q1'', question_title = [], question_text = [], a_type = ''single'',
           value_text = ''Yes''\<rparr>]
   \<and> api_answer ext0 [(''demo'', s_demo)] ''demo'' (body ''Q1'' (PInt 2) PNone PNone)
     = Finished final_title_default ''Result: Q1: No''
         [\<lparr>a_qid = ''Q1'', question_title = [], question_text = [], a_type = ''single'',
           value_text = ''No''\<rparr>]"
proof -
  have f1: "find (\<lambda>x. idx x = 1) (options q1_demo)
             = Some \<lparr>idx = 1, opt_text = ''Yes'', next_qid = Some ''Q2''\<rparr>"
    and f2: "find (\<lambda>x. idx x = 2) (options q1_demo)
             = Some \<lparr>idx = 2, opt_text = ''No'', next_qid = None\<rparr>"
    by (simp_all add: q1_demo_def)
  have q: "\<And>i. safe_str ext0 (p_qid (body ''Q1'' i PNone PNone)) = ''Q1''"
    by (simp add: body_def demo_qid)
  have t: "qtype q1_demo = ''single''" "title q1_demo = []" "q_text q1_demo = []"
    by (simp_all add: q1_demo_def)
  have i: "\<And>n. as_int (p_option_idx (body ''Q1'' (PInt n) PNone PNone)) = Some n"
    by (simp add: body_def)
  have s: "final_text s_demo = ''Result: {answers}''" "final_title s_demo = final_title_default"
    by (simp_all add: s_demo_def)
  have "api_answer ext0 [(''demo'', s_demo)] ''demo'' (body ''Q1'' (PInt 1) PNone PNone)
     = AdvancedTo ''Q2''
         [\<lparr>a_qid = ''Q1'', question_title = [], question_text = [], a_type = ''single'',
           value_text = ''Yes''\<rparr>]"
    using single_valid_option_outcome [OF demo_registry q _ demo_questions(1) t(1) i f1]
    by (simp add: demo_questions t body_def)
  moreover
  have "api_answer ext0 [(''demo'', s_demo)] ''demo'' (body ''Q1'' (PInt 2) PNone PNone)
     = Finished final_title_default ''Result: Q1: No''
         [\<lparr>a_qid = ''Q1'', question_title = [], question_text = [], a_type = ''single'',
           value_text = ''No''\<rparr>]"
    using single_valid_option_outcome [OF demo_registry q _ demo_questions(1) t(1) i f2]
    by (simp add: s t body_def answers_to_text_def answer_line_def or_str_def)
  ultimately show ?thesis by simp
qed

text \<open>
  The claim as written fails when the matched option names a question the survey does not
  have, which the parser accepts: in the sample, loaded from its sheet, the question \<open>Q1\<close>
  is \<open>single\<close>, its option 3 has the next id \<open>Q9\<close>, and the answer is the fault
  \<open>next_question_missing\<close>, not \<open>AdvancedTo\<close>.
\<close>

theorem single_dangling_counterexample:
  "load_all_surveys ext0 ''data'' (Some [(''demo.xlsx'', df_demo)]) = Inr [(''demo'', s_demo)]
   \<and> qtype q1_demo = ''single''
   \<and> find (\<lambda>x. idx x = 3) (options q1_demo)
       = Some \<lparr>idx = 3, opt_text = ''Maybe'', next_qid = Some ''Q9''\<rparr>
   \<and> api_answer ext0 [(''demo'', s_demo)] ''demo'' (body ''Q1'' (PInt 3) PNone PNone)
       = Fail ''next_question_missing'' (Some ''Q9'') 500"
proof -
  have "evaluate ext0 q1_demo (body ''Q1'' (PInt 3) PNone PNone) = Inr (''Maybe'', Some ''Q9'')"
    by (simp add: evaluate_def q1_demo_def body_def)
  moreover have "safe_str ext0 (p_qid (body ''Q1'' (PInt 3) PNone PNone)) = ''Q1''"
    by (simp add: body_def demo_qid)
  ultimately
  have "api_answer ext0 [(''demo'', s_demo)] ''demo'' (body ''Q1'' (PInt 3) PNone PNone)
       = Fail ''next_question_missing'' (Some ''Q9'') 500"
    using api_answer_found [OF demo_registry _ _ demo_questions(1), of ext0
        "body ''Q1'' (PInt 3) PNone PNone"]
    by (simp add: respond_def demo_questions)
  with load_all_demo show ?thesis by (simp add: q1_demo_def)
qed

section \<open>Branching engine: a multiple-choice answer\<close>

lemma map_filter_key:
  assumes "\<And>i x. f i = Some x \<Longrightarrow> g x = i"
  shows "map g (List.map_filter f xs) = filter (\<lambda>i. f i \<noteq> None) xs"
  using assms by (induction xs) (auto split: option.splits)

lemma gather_options_sorted: "sorted_wrt (<) (map idx (gather_options ext r))"
proof -
  have "map idx (gather_options ext r)
          = filter (\<lambda>i. (let a = safe_str ext (row_get r (''Answer'' @ str_int i));
                             n = safe_str ext (row_get r (''NextIfAnswer'' @ str_int i))
                         in if a \<noteq> [] then Some \<lparr>idx = i, opt_text = a, next_qid = or_None n\<rparr>
                            else None) \<noteq> None) [1..10]"
    unfolding gather_options_def
    by (rule map_filter_key) (auto simp: Let_def split: if_splits)
  then show ?thesis
    by (simp add: sorted_wrt_filter)
qed

lemma parsed_question:
  assumes "load_survey_from_excel ext filepath df = Inr s"
    and "map_of (questions s) k = Some q"
  shows "\<exists>r. q = make_question ext r"
proof -
  let ?rs = "filter (\<lambda>r. row_qid ext r \<noteq> []) (qrows ext df)"
  from assms(1)
  have "questions s = fold (\<lambda>r. AList.update (row_qid ext r) (make_question ext r)) ?rs []"
    unfolding load_survey_Inr question_rows_Inr by auto
  with assms(2) show ?thesis
    by (auto simp: map_of_fold_update split: list.splits)
qed

lemma parsed_options_sorted:
  assumes "load_survey_from_excel ext filepath df = Inr s"
    and "map_of (questions s) k = Some q"
  shows "sorted_wrt (<) (map idx (options q))"
  using parsed_question [OF assms] by (auto simp: make_question_def gather_options_sorted)

lemma register_sorted:
  assumes "\<forall>k s. map_of surveys k = Some s \<longrightarrow>
             (\<forall>j q. map_of (questions s) j = Some q \<longrightarrow> sorted_wrt (<) (map idx (options q)))"
    and "\<forall>j q. map_of (questions s) j = Some q \<longrightarrow> sorted_wrt (<) (map idx (options q))"
  shows "\<forall>k s'. map_of (register surveys s) k = Some s' \<longrightarrow>
             (\<forall>j q. map_of (questions s') j = Some q \<longrightarrow> sorted_wrt (<) (map idx (options q)))"
  using assms by (auto simp: register_def update_conv' Let_def split: if_splits)

lemma load_files_sorted:
  assumes "load_files ext data_dir fs surveys = Inr SURVEYS"
    and "\<forall>k s. map_of surveys k = Some s \<longrightarrow>
             (\<forall>j q. map_of (questions s) j = Some q \<longrightarrow> sorted_wrt (<) (map idx (options q)))"
  shows "\<forall>k s. map_of SURVEYS k = Some s \<longrightarrow>
             (\<forall>j q. map_of (questions s) j = Some q \<longrightarrow> sorted_wrt (<) (map idx (options q)))"
  using assms
proof (induction fs arbitrary: surveys)
  case Nil
  then show ?case by simp
next
  case (Cons f fs)
  obtain name df where f: "f = (name, df)" by (cases f)
  show ?case
  proof (cases "\<not> suffix ''.xlsx'' (lower name) \<or> prefix ''~$'' name")
    case True
    then have "load_files ext data_dir fs surveys = Inr SURVEYS"
      using Cons.prems(1) f by (auto split: if_splits)
    then show ?thesis using Cons.IH Cons.prems(2) by blast
  next
    case False
    then obtain s where s: "load_survey_from_excel ext (path_join data_dir name) df = Inr s"
      and l: "load_files ext data_dir fs (register surveys s) = Inr SURVEYS"
      using Cons.prems(1) f by (auto split: sum.splits)
    have "\<forall>j q. map_of (questions s) j = Some q \<longrightarrow> sorted_wrt (<) (map idx (options q))"
      using parsed_options_sorted [OF s] by blast
    from register_sorted [OF Cons.prems(2) this] l show ?thesis
      by (rule Cons.IH [rotated])
  qed
qed

lemma loaded_options_sorted:
  assumes "load_all_surveys ext data_dir listing = Inr SURVEYS"
    and "map_of SURVEYS k = Some s" and "map_of (questions s) j = Some q"
  shows "sorted_wrt (<) (map idx (options q))"
proof (cases listing)
  case None
  then show ?thesis using assms by (simp add: load_all_surveys_def)
next
  case (Some fs)
  then have "load_files ext data_dir fs [] = Inr SURVEYS"
    using assms(1) by (simp add: load_all_surveys_def)
  from load_files_sorted [OF this] assms(2,3) show ?thesis by auto
qed

lemma find_distinct:
  "distinct (map f xs) \<Longrightarrow> x \<in> set xs \<Longrightarrow> find (\<lambda>y. f y = f x) xs = Some x"
  by (induction xs) (auto simp: image_iff)

lemma chosen_resolved:
  assumes "sorted_wrt (<) (map idx opts)"
  shows "filter (\<lambda>x. idx x \<in> set is) opts
           = map (\<lambda>i. the (find (\<lambda>x. idx x = i) opts))
               (sort (remdups (filter (\<lambda>i. i \<in> idx ` set opts) is)))"
proof -
  let ?L = "filter (\<lambda>x. idx x \<in> set is) opts"
  let ?R = "sort (remdups (filter (\<lambda>i. i \<in> idx ` set opts) is))"
  have d: "distinct (map idx opts)"
    using assms by (simp add: strict_sorted_iff)
  have "map idx ?L = filter (\<lambda>i. i \<in> set is) (map idx opts)"
    by (simp add: filter_map comp_def)
  then have "sorted_wrt (<) (map idx ?L)"
    using assms by (simp add: sorted_wrt_filter)
  then have l: "sorted (map idx ?L)" "distinct (map idx ?L)"
    by (simp_all add: strict_sorted_iff)
  have r: "sorted ?R" "distinct ?R"
    by simp_all
  have "set (map idx ?L) = set ?R"
    by auto
  with l r have e: "map idx ?L = ?R"
    by (rule sorted_distinct_set_unique)
  have "?L = map (\<lambda>x. the (find (\<lambda>y. idx y = idx x) opts)) ?L"
    by (rule map_idI [symmetric]) (simp add: find_distinct [OF d])
  also have "\<dots> = map (\<lambda>i. the (find (\<lambda>x. idx x = i) opts)) (map idx ?L)"
    by (simp add: comp_def)
  finally show ?thesis
    unfolding e .
qed

text \<open>
  C2. In a registry that \<open>load_all_surveys\<close> returned, for a \<open>multi\<close> question and a
  submitted list of integers of which at least one is the index of an option, the value
  recorded is the texts, joined by a comma and a space, of the options the list resolves
  to: those whose index is in the list, each once, in ascending order of index. The next
  id is the question's own.
\<close>

theorem multi_resolved_text:
  assumes "load_all_surveys ext data_dir listing = Inr SURVEYS"
    and "get_survey_or_404 SURVEYS k = Inr s"
    and "safe_str ext (p_qid data) = rq" and "rq \<noteq> []"
    and "map_of (questions s) rq = Some q"
    and "qtype q = ''multi''"
    and "p_option_idxs data = PList xs"
    and "list_all (\<lambda>x. as_int x \<noteq> None) xs"
    and "\<exists>x\<in>set xs. the (as_int x) \<in> idx ` set (options q)"
  shows "api_answer ext SURVEYS k data
           = respond s q rq (p_answers data)
               (join '', '' (map opt_text (resolved_options q (map (\<lambda>x. the (as_int x)) xs))))
               (next_id q)"
proof -
  let ?is = "map (\<lambda>x. the (as_int x)) xs"
  let ?chosen = "filter (\<lambda>x. idx x \<in> set (sort (remdups ?is))) (options q)"
  from assms(2) have "map_of SURVEYS k = Some s"
    by (simp add: get_survey_or_404_def split: option.splits)
  from loaded_options_sorted [OF assms(1) this assms(5)]
  have "sorted_wrt (<) (map idx (options q))" .
  then have c: "filter (\<lambda>x. idx x \<in> set ?is) (options q) = resolved_options q ?is"
    unfolding resolved_options_def by (rule chosen_resolved)
  have s: "set (sort (remdups ?is)) = set ?is"
    by simp
  from assms(9) obtain x y where "x \<in> set xs" "y \<in> set (options q)" "idx y = the (as_int x)"
    by force
  then have "y \<in> set ?chosen"
    by force
  then have "?chosen \<noteq> []"
    by (auto simp: filter_empty_conv)
  then have "evaluate ext q data
               = Inr (join '', '' (map opt_text (resolved_options q ?is)), next_id q)"
    using assms(6,7,8) c unfolding s by (simp add: evaluate_def s)
  then show ?thesis
    using assms(2-5) by (simp add: api_answer_found)
qed

theorem multi_resolved_text_witness:
  "api_answer ext0 [(''demo'', s_demo)] ''demo''
     (body ''Q2'' PNone (PList [PInt 7, PInt 9, PInt 3, PInt 7, PBool True]) PNone)
     = AdvancedTo ''Q3''
         [\<lparr>a_qid = ''Q2'', question_title = ''Pick'', question_text = [], a_type = ''multi'',
           value_text = ''A, B''\<rparr>]"
proof -
  let ?xs = "[PInt 7, PInt 9, PInt 3, PInt 7, PBool True]"
  let ?data = "body ''Q2'' PNone (PList ?xs) PNone"
  have q: "safe_str ext0 (p_qid ?data) = ''Q2''"
    by (simp add: body_def demo_qid)
  have ne: "''Q2'' \<noteq> []"
    by simp
  have t: "qtype q2_demo = ''multi''"
    by (simp add: q2_demo_def)
  have p: "p_option_idxs ?data = PList ?xs"
    by (simp add: body_def)
  have i: "list_all (\<lambda>x. as_int x \<noteq> None) ?xs"
    by simp
  have m: "\<exists>x\<in>set ?xs. the (as_int x) \<in> idx ` set (options q2_demo)"
    by (simp add: q2_demo_def)
  have r: "resolved_options q2_demo (map (\<lambda>x. the (as_int x)) ?xs)
             = [\<lparr>idx = 3, opt_text = ''A'', next_qid = None\<rparr>,
                \<lparr>idx = 7, opt_text = ''B'', next_qid = None\<rparr>]"
    by (simp add: resolved_options_def q2_demo_def)
  show ?thesis
    unfolding multi_resolved_text [OF load_all_demo demo_registry q ne demo_questions(2) t p i m] r
    by (simp add: respond_def q2_demo_def demo_questions body_def)
qed

section \<open>Branching engine: a number answer\<close>

lemma safe_str_PStr: "safe_str ext (PStr t) = strip t"
  by (simp add: safe_str_def)

lemma respond_demo_q4:
  "respond s_demo q4_demo ''Q4'' [] v (next_id q4_demo)
     = Finished final_title_default (''Result: Age: '' @ v)
         [\<lparr>a_qid = ''Q4'', question_title = ''Age'', question_text = [], a_type = ''number'',
           value_text = v\<rparr>]"
  by (simp add: respond_def q4_demo_def s_demo_def answers_to_text_def answer_line_def or_str_def)

lemma str_int_42: "str_int 42 = ''42''"
  by code_simp

lemma strip_demo: "strip '' 5 '' = ''5''" "strip ''five'' = ''five''"
  by code_simp+

text \<open>
  C6. For a \<open>number\<close> question, an \<open>int\<close> or \<open>float\<close> value is accepted and recorded as
  its \<open>str()\<close>, and a string value is accepted exactly when \<open>float\<close> parses it (stripped),
  recorded as the \<open>str()\<close> of the parsed float; the next id is the question's own. A
  string that does not parse is answered with \<open>bad_number\<close> and status 400.
\<close>

theorem number_payload:
  assumes "get_survey_or_404 SURVEYS k = Inr s"
    and "safe_str ext (p_qid data) = rq" and "rq \<noteq> []"
    and "map_of (questions s) rq = Some q"
    and "qtype q = ''number''"
  shows "(p_value data = PInt i \<longrightarrow>
            api_answer ext SURVEYS k data
              = respond s q rq (p_answers data) (str_int i) (next_id q))
       \<and> (p_value data = PFloat r \<longrightarrow>
            api_answer ext SURVEYS k data = respond s q rq (p_answers data) r (next_id q))
       \<and> (p_value data = PStr t \<longrightarrow>
            api_answer ext SURVEYS k data
              = (case py_float ext (strip t) of
                   Some r' \<Rightarrow> respond s q rq (p_answers data) r' (next_id q)
                 | None \<Rightarrow> Fail ''bad_number'' None 400))"
  using assms
  by (auto simp: api_answer_found evaluate_def safe_str_PStr split: option.splits)

theorem number_payload_witness:
  "api_answer ext0 [(''demo'', s_demo)] ''demo'' (body ''Q4'' PNone PNone (PInt 42))
     = Finished final_title_default ''Result: Age: 42''
         [\<lparr>a_qid = ''Q4'', question_title = ''Age'', question_text = [], a_type = ''number'',
           value_text = ''42''\<rparr>]
   \<and> api_answer ext0 [(''demo'', s_demo)] ''demo'' (body ''Q4'' PNone PNone (PFloat ''1.5''))
     = Finished final_title_default ''Result: Age: 1.5''
         [\<lparr>a_qid = ''Q4'', question_title = ''Age'', question_text = [], a_type = ''number'',
           value_text = ''1.5''\<rparr>]
   \<and> api_answer ext0 [(''demo'', s_demo)] ''demo'' (body ''Q4'' PNone PNone (PStr '' 5 ''))
     = Finished final_title_default ''Result: Age: 5.0''
         [\<lparr>a_qid = ''Q4'', question_title = ''Age'', question_text = [], a_type = ''number'',
           value_text = ''5.0''\<rparr>]
   \<and> api_answer ext0 [(''demo'', s_demo)] ''demo'' (body ''Q4'' PNone PNone (PStr ''five''))
     = Fail ''bad_number'' None 400"
proof -
  have q: "\<And>v. safe_str ext0 (p_qid (body ''Q4'' PNone PNone v)) = ''Q4''"
    by (simp add: body_def demo_qid)
  have t: "qtype q4_demo = ''number''"
    by (simp add: q4_demo_def)
  have v: "\<And>v. p_value (body ''Q4'' PNone PNone v) = v" "\<And>v. p_answers (body ''Q4'' PNone PNone v) = []"
    by (simp_all add: body_def)
  have f: "py_float ext0 ''5'' = Some ''5.0''" "py_float ext0 ''five'' = None"
    by (simp_all add: ext0_def)
  note n = number_payload [OF demo_registry q _ demo_questions(4) t]
  show ?thesis
    using n [of "PInt 42" 42 "''''" "''''"] n [of "PFloat ''1.5''" 0 "''1.5''" "''''"]
      n [of "PStr '' 5 ''" 0 "''''" "'' 5 ''"] n [of "PStr ''five''" 0 "''''" "''five''"]
    by (simp add: v f strip_demo str_int_42 respond_demo_q4)
qed

section \<open>Branching engine: rejected submissions\<close>

lemma filter_idx_empty:
  assumes "\<forall>x\<in>set xs. the (as_int x) \<notin> idx ` set opts"
  shows "filter (\<lambda>x. idx x \<in> (\<lambda>x. the (as_int x)) ` set xs) opts = []"
proof -
  have "idx x \<notin> (\<lambda>x. the (as_int x)) ` set xs" if "x \<in> set opts" for x
  proof
    assume "idx x \<in> (\<lambda>x. the (as_int x)) ` set xs"
    then obtain y where "y \<in> set xs" "idx x = the (as_int y)" by blast
    with assms that show False by force
  qed
  then show ?thesis by (simp add: filter_empty_conv)
qed

lemma demo_qid_blank: "safe_str ext0 (PStr ''  '') = []" "safe_str ext0 PNone = []"
  by code_simp+

text \<open>
  C8. A submission the handler rejects as invalid gets an error body with status 400 and
  nothing else: no answer record is appended, and the body carries no accumulator, so the
  one the caller holds stays as it was. This is the answer when the question id is empty;
  for \<open>single\<close>, when the option index is not an integer (a list, say) or matches no
  option; for \<open>multi\<close>, when the indices are not a list of integers, or the list is empty
  or resolves to no option; for \<open>text\<close>, when the value is empty after trimming.
\<close>

theorem rejected_without_record:
  assumes "get_survey_or_404 SURVEYS k = Inr s"
  shows "(safe_str ext (p_qid data) = [] \<longrightarrow>
            api_answer ext SURVEYS k data = Fail ''bad_request'' None 400)
       \<and> (safe_str ext (p_qid data) \<noteq> []
            \<and> map_of (questions s) (safe_str ext (p_qid data)) = Some q \<longrightarrow>
           (qtype q = ''single'' \<and> as_int (p_option_idx data) = None \<longrightarrow>
              api_answer ext SURVEYS k data = Fail ''bad_request'' None 400)
         \<and> (qtype q = ''single'' \<and> as_int (p_option_idx data) = Some i
              \<and> find (\<lambda>x. idx x = i) (options q) = None \<longrightarrow>
              api_answer ext SURVEYS k data = Fail ''invalid_option'' None 400)
         \<and> (qtype q = ''multi'' \<and> (\<forall>xs. p_option_idxs data \<noteq> PList xs) \<longrightarrow>
              api_answer ext SURVEYS k data = Fail ''bad_request'' None 400)
         \<and> (qtype q = ''multi'' \<and> p_option_idxs data = PList xs
              \<and> \<not> list_all (\<lambda>x. as_int x \<noteq> None) xs \<longrightarrow>
              api_answer ext SURVEYS k data = Fail ''bad_request'' None 400)
         \<and> (qtype q = ''multi'' \<and> p_option_idxs data = PList xs
              \<and> list_all (\<lambda>x. as_int x \<noteq> None) xs
              \<and> (\<forall>x\<in>set xs. the (as_int x) \<notin> idx ` set (options q)) \<longrightarrow>
              api_answer ext SURVEYS k data = Fail ''no_selection'' None 400)
         \<and> (qtype q = ''text'' \<and> safe_str ext (p_value data) = [] \<longrightarrow>
              api_answer ext SURVEYS k data = Fail ''empty_value'' None 400))
       \<and> (\<forall>c n st. api_answer ext SURVEYS k data = Fail c n st \<longrightarrow>
            returned_answers (api_answer ext SURVEYS k data) = None)"
proof -
  have 1: "safe_str ext (p_qid data) = [] \<longrightarrow>
            api_answer ext SURVEYS k data = Fail ''bad_request'' None 400"
    using assms by (simp add: api_answer_def)
  have 3: "\<forall>c n st. api_answer ext SURVEYS k data = Fail c n st \<longrightarrow>
            returned_answers (api_answer ext SURVEYS k data) = None"
    by (simp add: returned_answers_def)
  have 2: "api_answer ext SURVEYS k data =
           (case evaluate ext q data of
              Inl r \<Rightarrow> r
            | Inr (v, next) \<Rightarrow> respond s q (safe_str ext (p_qid data)) (p_answers data) v next)"
    if "safe_str ext (p_qid data) \<noteq> []"
      "map_of (questions s) (safe_str ext (p_qid data)) = Some q"
    using assms that by (simp add: api_answer_found)
  have a: "qtype q = ''single'' \<Longrightarrow> as_int (p_option_idx data) = None
             \<Longrightarrow> evaluate ext q data = Inl (Fail ''bad_request'' None 400)"
    by (simp add: evaluate_def)
  have b: "qtype q = ''single'' \<Longrightarrow> as_int (p_option_idx data) = Some i
             \<Longrightarrow> find (\<lambda>x. idx x = i) (options q) = None
             \<Longrightarrow> evaluate ext q data = Inl (Fail ''invalid_option'' None 400)"
    by (simp add: evaluate_def)
  have c: "qtype q = ''multi'' \<Longrightarrow> \<forall>xs. p_option_idxs data \<noteq> PList xs
             \<Longrightarrow> evaluate ext q data = Inl (Fail ''bad_request'' None 400)"
    by (cases "p_option_idxs data") (simp_all add: evaluate_def)
  have d: "qtype q = ''multi'' \<Longrightarrow> p_option_idxs data = PList xs
             \<Longrightarrow> \<not> list_all (\<lambda>x. as_int x \<noteq> None) xs
             \<Longrightarrow> evaluate ext q data = Inl (Fail ''bad_request'' None 400)"
    by (simp add: evaluate_def)
  have e: "qtype q = ''multi'' \<Longrightarrow> p_option_idxs data = PList xs
             \<Longrightarrow> list_all (\<lambda>x. as_int x \<noteq> None) xs
             \<Longrightarrow> \<forall>x\<in>set xs. the (as_int x) \<notin> idx ` set (options q)
             \<Longrightarrow> evaluate ext q data = Inl (Fail ''no_selection'' None 400)"
    by (simp add: evaluate_def filter_idx_empty)
  have f: "qtype q = ''text'' \<Longrightarrow> safe_str ext (p_value data) = []
             \<Longrightarrow> evaluate ext q data = Inl (Fail ''empty_value'' None 400)"
    by (simp add: evaluate_def)
  show ?thesis
    using 1 3 2 a b c d e f by simp
qed


theorem rejected_without_record_witness:
  "api_answer ext0 [(''demo'', s_demo)] ''demo'' (body ''  '' (PInt 1) PNone PNone)
     = Fail ''bad_request'' None 400
   \<and> api_answer ext0 [(''demo'', s_demo)] ''demo'' (body ''Q1'' (PList []) PNone PNone)
     = Fail ''bad_request'' None 400
   \<and> api_answer ext0 [(''demo'', s_demo)] ''demo'' (body ''Q1'' (PInt 7) PNone PNone)
     = Fail ''invalid_option'' None 400
   \<and> api_answer ext0 [(''demo'', s_demo)] ''demo'' (body ''Q2'' PNone PNone PNone)
     = Fail ''bad_request'' None 400
   \<and> api_answer ext0 [(''demo'', s_demo)] ''demo'' (body ''Q2'' PNone (PList [PStr ''3'']) PNone)
     = Fail ''bad_request'' None 400
   \<and> api_answer ext0 [(''demo'', s_demo)] ''demo'' (body ''Q2'' PNone (PList []) PNone)
     = Fail ''no_selection'' None 400
   \<and> api_answer ext0 [(''demo'', s_demo)] ''demo''
        (body ''Q2'' PNone (PList [PInt 1, PInt 9]) PNone)
     = Fail ''no_selection'' None 400
   \<and> api_answer ext0 [(''demo'', s_demo)] ''demo'' (body ''Q3'' PNone PNone (PStr ''  ''))
     = Fail ''empty_value'' None 400
   \<and> returned_answers
        (api_answer ext0 [(''demo'', s_demo)] ''demo'' (body ''Q3'' PNone PNone (PStr ''  '')))
     = None"
proof -
  note r = rejected_without_record [OF demo_registry, of ext0]
  have t: "qtype q1_demo = ''single''" "qtype q2_demo = ''multi''" "qtype q3_demo = ''text''"
    by (simp_all add: q1_demo_def q2_demo_def q3_demo_def)
  have o: "find (\<lambda>x. idx x = 7) (options q1_demo) = None"
    "idx ` set (options q2_demo) = {3, 7}"
    by (auto simp: q1_demo_def q2_demo_def)
  have 1: "api_answer ext0 [(''demo'', s_demo)] ''demo'' (body ''  '' (PInt 1) PNone PNone)
     = Fail ''bad_request'' None 400"
    using r [of "body ''  '' (PInt 1) PNone PNone"] by (simp add: body_def demo_qid_blank)
  have 2: "api_answer ext0 [(''demo'', s_demo)] ''demo'' (body ''Q1'' (PList []) PNone PNone)
     = Fail ''bad_request'' None 400"
    using r [of "body ''Q1'' (PList []) PNone PNone" q1_demo]
    by (simp add: body_def demo_qid demo_questions t)
  have 3: "api_answer ext0 [(''demo'', s_demo)] ''demo'' (body ''Q1'' (PInt 7) PNone PNone)
     = Fail ''invalid_option'' None 400"
    using r [of "body ''Q1'' (PInt 7) PNone PNone" q1_demo 7]
    by (simp add: body_def demo_qid demo_questions t o)
  have 4: "api_answer ext0 [(''demo'', s_demo)] ''demo'' (body ''Q2'' PNone PNone PNone)
     = Fail ''bad_request'' None 400"
    using r [of "body ''Q2'' PNone PNone PNone" q2_demo]
    by (simp add: body_def demo_qid demo_questions t)
  have 5: "api_answer ext0 [(''demo'', s_demo)] ''demo''
        (body ''Q2'' PNone (PList [PStr ''3'']) PNone) = Fail ''bad_request'' None 400"
    using r [of "body ''Q2'' PNone (PList [PStr ''3'']) PNone" q2_demo 0 "[PStr ''3'']"]
    by (simp add: body_def demo_qid demo_questions t)
  have 6: "api_answer ext0 [(''demo'', s_demo)] ''demo'' (body ''Q2'' PNone (PList []) PNone)
     = Fail ''no_selection'' None 400"
    using r [of "body ''Q2'' PNone (PList []) PNone" q2_demo 0 "[]"]
    by (simp add: body_def demo_qid demo_questions t)
  have 7: "api_answer ext0 [(''demo'', s_demo)] ''demo''
        (body ''Q2'' PNone (PList [PInt 1, PInt 9]) PNone) = Fail ''no_selection'' None 400"
    using r [of "body ''Q2'' PNone (PList [PInt 1, PInt 9]) PNone" q2_demo 0 "[PInt 1, PInt 9]"]
    by (simp add: body_def demo_qid demo_questions t o)
  have 8: "api_answer ext0 [(''demo'', s_demo)] ''demo'' (body ''Q3'' PNone PNone (PStr ''  ''))
     = Fail ''empty_value'' None 400"
    using r [of "body ''Q3'' PNone PNone (PStr ''  '')" q3_demo]
    by (simp add: body_def demo_qid demo_questions t demo_qid_blank)
  have 9: "returned_answers
        (api_answer ext0 [(''demo'', s_demo)] ''demo'' (body ''Q3'' PNone PNone (PStr ''  '')))
     = None"
    using r [of "body ''Q3'' PNone PNone (PStr ''  '')"] 8 by simp
  show ?thesis
    using 1 2 3 4 5 6 7 8 9 by simp
qed

section \<open>Result formatter\<close>

lemma replace_absent:
  "\<not> sublist old t \<Longrightarrow> replace old new t = t"
proof (induction t)
  case Nil
  then show ?case by simp
next
  case (Cons c cs)
  from Cons.prems have "\<not> prefix old (c # cs)"
    using prefix_imp_sublist by blast
  moreover from Cons.prems have "\<not> sublist old cs"
    by (meson sublist_Cons_right)
  ultimately show ?case using Cons.IH by simp
qed

lemma prefix_in_front:
  assumes "prefix old (pre @ old @ post)" and "pre \<noteq> []"
  shows "sublist old (pre @ butlast old)"
proof (cases "old = []")
  case True
  then show ?thesis by simp
next
  case False
  have "length old \<le> length (pre @ butlast old)"
    using assms(2) False by (cases pre) simp_all
  moreover have "pre @ old @ post = (pre @ butlast old) @ (last old # post)"
    using False by simp
  ultimately have "prefix old (pre @ butlast old)"
    using assms(1) by (metis prefix_length_prefix prefixI)
  then show ?thesis by (rule prefix_imp_sublist)
qed

lemma replace_first:
  assumes "old \<noteq> []" and "\<not> sublist old (pre @ butlast old)"
  shows "replace old new (pre @ old @ post) = pre @ new @ replace old new post"
  using assms(2)
proof (induction pre)
  case Nil
  obtain c cs where "old = c # cs" using assms(1) by (cases old) auto
  then show ?case by simp
next
  case (Cons c pre)
  have "\<not> prefix old ((c # pre) @ old @ post)"
    using Cons.prems prefix_in_front [of old "c # pre" post] by blast
  moreover have "\<not> sublist old (pre @ butlast old)"
    using Cons.prems by (metis append_Cons sublist_Cons_right)
  ultimately show ?case using Cons.IH by simp
qed


lemma demo_answers_text:
  "answers_to_text demo_answers = ''Q1: No'' @ [CHR 0x0A] @ ''Name: Ada''"
  by (simp add: demo_answers_def answers_to_text_def answer_line_def or_str_def)

lemma demo_templates:
  "\<not> sublist ''{answers}'' ''Thank you''"
  "\<not> sublist ''{answers}'' (''Result: '' @ ''{answers'')"
  "\<not> sublist ''{answers}'' ''.''"
  by code_simp+

text \<open>
  C4 (amended). The summary is one line per answer record, in the order of the records,
  joined by newlines; a line is a label, \<open>: \<close> and the record's value, where the label is
  the record's question title, or its question id when the title is empty, or a fixed
  default when both are empty. The finish response holds the finish text with the summary
  in place of the placeholder \<open>{answers}\<close>: the text up to the first placeholder stays,
  the summary follows, and the rest is rendered in the same way; a finish text without
  the placeholder is returned unchanged.
\<close>

theorem finish_text_rendering:
  "answers_to_text answers
     = join [CHR 0x0A]
         (map (\<lambda>a. (if question_title a \<noteq> [] then question_title a
                     else if a_qid a \<noteq> [] then a_qid a
                     else question_default) @ '': '' @ value_text a) answers)
   \<and> respond s q rq prior v None
     = Finished (final_title s)
         (replace ''{answers}''
            (answers_to_text (prior @ [\<lparr>a_qid = rq, question_title = title q,
               question_text = q_text q, a_type = qtype q, value_text = v\<rparr>]))
            (final_text s))
         (prior @ [\<lparr>a_qid = rq, question_title = title q, question_text = q_text q,
            a_type = qtype q, value_text = v\<rparr>])
   \<and> (\<not> sublist ''{answers}'' t \<longrightarrow>
        replace ''{answers}'' (answers_to_text answers) t = t)
   \<and> (\<not> sublist ''{answers}'' (pre @ ''{answers'') \<longrightarrow>
        replace ''{answers}'' (answers_to_text answers) (pre @ ''{answers}'' @ post)
          = pre @ answers_to_text answers
              @ replace ''{answers}'' (answers_to_text answers) post)"
proof -
  have "answer_line = (\<lambda>a. (if question_title a \<noteq> [] then question_title a
                     else if a_qid a \<noteq> [] then a_qid a
                     else question_default) @ '': '' @ value_text a)"
    by (rule ext) (simp add: answer_line_def or_str_def)
  then have 1: "answers_to_text answers
     = join [CHR 0x0A]
         (map (\<lambda>a. (if question_title a \<noteq> [] then question_title a
                     else if a_qid a \<noteq> [] then a_qid a
                     else question_default) @ '': '' @ value_text a) answers)"
    by (simp add: answers_to_text_def)
  have 2: "respond s q rq prior v None
     = Finished (final_title s)
         (replace ''{answers}''
            (answers_to_text (prior @ [\<lparr>a_qid = rq, question_title = title q,
               question_text = q_text q, a_type = qtype q, value_text = v\<rparr>]))
            (final_text s))
         (prior @ [\<lparr>a_qid = rq, question_title = title q, question_text = q_text q,
            a_type = qtype q, value_text = v\<rparr>])"
    by (simp add: respond_def or_str_Nil Let_def)
  have 3: "\<not> sublist ''{answers}'' t \<longrightarrow>
        replace ''{answers}'' (answers_to_text answers) t = t"
    by (simp add: replace_absent)
  have "butlast ''{answers}'' = ''{answers''" by simp
  then have 4: "\<not> sublist ''{answers}'' (pre @ ''{answers'') \<longrightarrow>
        replace ''{answers}'' (answers_to_text answers) (pre @ ''{answers}'' @ post)
          = pre @ answers_to_text answers
              @ replace ''{answers}'' (answers_to_text answers) post"
    using replace_first [of "''{answers}''" pre "answers_to_text answers" post]
    by (metis list.distinct(1))
  from 1 2 3 4 show ?thesis by blast
qed

theorem finish_text_rendering_witness:
  "replace ''{answers}'' (answers_to_text demo_answers) ''Thank you'' = ''Thank you''
   \<and> replace ''{answers}'' (answers_to_text demo_answers) (''Result: '' @ ''{answers}'' @ ''.'')
     = ''Result: '' @ (''Q1: No'' @ [CHR 0x0A] @ ''Name: Ada'') @ ''.''"
proof -
  note r = finish_text_rendering [of demo_answers]
  have "replace ''{answers}'' (answers_to_text demo_answers) ''Thank you'' = ''Thank you''"
    using r [of _ _ _ _ _ "''Thank you''"] demo_templates(1) by blast
  moreover
  have "replace ''{answers}'' (answers_to_text demo_answers) ''.'' = ''.''"
    using r [of _ _ _ _ _ "''.''"] demo_templates(3) by blast
  moreover
  have "replace ''{answers}'' (answers_to_text demo_answers) (''Result: '' @ ''{answers}'' @ ''.'')
          = ''Result: '' @ answers_to_text demo_answers
              @ replace ''{answers}'' (answers_to_text demo_answers) ''.''"
    using r [of _ _ _ _ _ _ "''Result: ''" "''.''"] demo_templates(2) by blast
  ultimately show ?thesis
    by (simp only: demo_answers_text)
qed

text \<open>
  The claim as written takes the title verbatim from the record. A record of a question
  without title (the sample's \<open>Q1\<close>) is rendered with its question id.
\<close>

theorem finish_text_title_counterexample:
  "replace ''{answers}''
     (answers_to_text
        [\<lparr>a_qid = ''Q1'', question_title = [], question_text = [], a_type = ''single'',
          value_text = ''No''\<rparr>])
     ''Result: {answers}''
   = ''Result: Q1: No''
   \<and> ''Result: Q1: No'' \<noteq> ''Result: '' @ ([] @ '': '' @ ''No'')"
  by (simp add: answers_to_text_def answer_line_def or_str_def)

end
